theory Spec2Isabelle
  imports Main "HOL-Library.Monad_Syntax" "HOL-Library.Word"
begin

section \<open>Python values used by the contract extractor\<close>

text \<open>
  Exceptions are values: a class and the message that \<^verbatim>\<open>str(e)\<close> gives.
  A function that can raise returns \<open>py_exception + 'a\<close>, with \<open>Inl\<close> the raise.
\<close>

datatype exc_class =
  KeyError | TypeError | AttributeError | ValueError
  | FileNotFoundError | IsADirectoryError | JSONDecodeError | APIError

datatype py_exception = PyExc exc_class string

fun str_exc :: "py_exception \<Rightarrow> string" where
  "str_exc (PyExc _ m) = m"

type_synonym bytes = "8 word list"

text \<open>
  What \<^verbatim>\<open>json.load\<close> returns. The type \<open>'f\<close> is the type of floats (\<open>pyfloat\<close>
  below). A \<open>JObj\<close> holds the items of a Python dict in insertion order (its keys
  are distinct); lookup is \<open>map_of\<close>.
\<close>

datatype 'f json =
  JNull | JBool bool | JInt int | JFloat 'f | JStr string
  | JArr "'f json list" | JObj "(string \<times> 'f json) list"

subsection \<open>\<^verbatim>\<open>str\<close> of an integer\<close>

definition digit_char :: "nat \<Rightarrow> char" where
  "digit_char d = ''0123456789'' ! d"

function str_nat :: "nat \<Rightarrow> string" where
  "str_nat n = (if n < 10 then [digit_char n] else str_nat (n div 10) @ [digit_char (n mod 10)])"
  by pat_completeness auto
termination
  by (relation "measure (\<lambda>n. n)") auto

definition str_int :: "int \<Rightarrow> string" where
  "str_int i = (if i < 0 then CHR ''-'' # str_nat (nat (- i)) else str_nat (nat i))"

subsection \<open>Floats and the format \<^verbatim>\<open>.2f\<close>\<close>

text \<open>
  A Python float is a finite value \<open>(-1)\<^sup>s * m * 2\<^sup>e\<close> (sign, mantissa, exponent), an
  infinity with its sign, or a NaN. \<^verbatim>\<open>format(x, '.2f')\<close> writes a finite value rounded
  to the nearest hundredth, ties to even, with the sign of the float (also for a zero)
  and two digits after the point; it writes \<^verbatim>\<open>inf\<close>, \<^verbatim>\<open>-inf\<close> and \<^verbatim>\<open>nan\<close> for
  the others.
\<close>

datatype pyfloat = Finite bool nat int | Inf bool | NaN

definition round_half_even :: "nat \<Rightarrow> nat \<Rightarrow> nat" where
  "round_half_even n d =
     (let q = n div d; r = n mod d
      in if 2 * r < d then q else if d < 2 * r then q + 1 else if even q then q else q + 1)"

definition hundredths :: "nat \<Rightarrow> int \<Rightarrow> nat" where
  \<comment> \<open>\<open>m * 2\<^sup>e * 100\<close>, rounded\<close>
  "hundredths m e =
     (if 0 \<le> e then m * 2 ^ nat e * 100 else round_half_even (m * 100) (2 ^ nat (- e)))"

fun format_2f :: "pyfloat \<Rightarrow> string" where
  "format_2f (Finite s m e) =
     (let q = hundredths m e
      in (if s then ''-'' else []) @ str_nat (q div 100) @ ''.''
           @ [digit_char (q mod 100 div 10), digit_char (q mod 10)])"
| "format_2f (Inf s) = (if s then ''-inf'' else ''inf'')"
| "format_2f NaN = ''nan''"

definition is_digit :: "char \<Rightarrow> bool" where
  "is_digit c = (c \<in> set ''0123456789'')"

definition two_decimals :: "string \<Rightarrow> bool" where
  \<comment> \<open>an optional sign, digits, a point and two digits\<close>
  "two_decimals s =
     (case rev s of
        d2 # d1 # dot # rest \<Rightarrow>
          dot = CHR ''.'' \<and> is_digit d1 \<and> is_digit d2 \<and>
          (case rev rest of
             [] \<Rightarrow> False
           | c # cs \<Rightarrow> if c = CHR ''-'' then cs \<noteq> [] \<and> list_all is_digit cs
                      else list_all is_digit (c # cs))
      | _ \<Rightarrow> False)"

section \<open>The schema: class SoftwareContract (processor.py)\<close>

record 'f SoftwareContract =
  software_system_name :: string
  vendor_name_dba :: string
  vendor_name_legal :: string
  contract_start :: "string option"
  contract_end :: "string option"
  contract_period :: "int option"
  auto_renewal :: "bool option"
  cancellation_notice_initial :: "int option"
  cancellation_notice_ongoing :: "int option"
  payment_terms :: "string option"
  payment_delay :: "int option"
  payment_amount_setup :: "'f option"
  payment_amount_per_terms :: "'f option"
  sla_uptime_guarantee :: "string option"
  integration_clauses :: "string option"
  data_ownership :: string
  license_count :: int

section \<open>display_contract_data (streamlit_app.py)\<close>

text \<open>
  The function builds \<^verbatim>\<open>data_dict\<close>, the label/value table that is rendered and exported.
  Every value is a string except that of "Payment Delay", which is the integer itself when
  it is truthy.
\<close>

datatype cell = StrCell string | IntCell int

definition str_or :: "string \<Rightarrow> string \<Rightarrow> string" where
  \<comment> \<open>\<^verbatim>\<open>s or d\<close> on a string\<close>
  "str_or s d = (if s = [] then d else s)"

definition opt_str_else_null :: "string option \<Rightarrow> string" where
  \<comment> \<open>\<^verbatim>\<open>x if x else "NULL"\<close> on an optional string\<close>
  "opt_str_else_null x = (case x of None \<Rightarrow> ''NULL'' | Some s \<Rightarrow> if s = [] then ''NULL'' else s)"

definition display_contract_data :: "pyfloat SoftwareContract \<Rightarrow> (string \<times> cell) list" where
  "display_contract_data contract_data =
    [(''Software/System Name'', StrCell (str_or (software_system_name contract_data) ''NULL'')),
     (''Vendor Name (DOING BUSINESS AS)'', StrCell (str_or (vendor_name_dba contract_data) ''NULL'')),
     (''Vendor Name (LEGAL ENTITY)'', StrCell (str_or (vendor_name_legal contract_data) ''NULL'')),
     (''Contract Start'', StrCell (opt_str_else_null (contract_start contract_data))),
     (''Contract End'', StrCell (opt_str_else_null (contract_end contract_data))),
     (''Contract Period'',
        StrCell (case contract_period contract_data of
                   Some n \<Rightarrow> str_int n @ '' months'' | None \<Rightarrow> ''NULL'')),
     (''Auto-renewal'',
        StrCell (if auto_renewal contract_data = Some True then ''TRUE''
                 else if auto_renewal contract_data = Some False then ''FALSE'' else ''NULL'')),
     (''Cancellation Notice (INITIAL TERM, DAYS)'',
        StrCell (case cancellation_notice_initial contract_data of
                   Some n \<Rightarrow> str_int n | None \<Rightarrow> ''NULL'')),
     (''Cancellation Notice (ONGOING, DAYS)'',
        StrCell (case cancellation_notice_ongoing contract_data of
                   Some n \<Rightarrow> str_int n | None \<Rightarrow> ''NULL'')),
     (''Payment Terms'', StrCell (opt_str_else_null (payment_terms contract_data))),
     (''Payment Delay'',
        (case payment_delay contract_data of
           None \<Rightarrow> StrCell ''NULL''
         | Some n \<Rightarrow> if n = 0 then StrCell ''NULL'' else IntCell n)),
     (''Payment amount, setup fee'',
        StrCell (case payment_amount_setup contract_data of
                   Some x \<Rightarrow> CHR ''$'' # format_2f x | None \<Rightarrow> ''NULL'')),
     (''Payment amount per terms'',
        StrCell (case payment_amount_per_terms contract_data of
                   Some x \<Rightarrow> CHR ''$'' # format_2f x | None \<Rightarrow> ''NULL'')),
     (''SLA/Uptime Guarantee'', StrCell (opt_str_else_null (sla_uptime_guarantee contract_data))),
     (''Integration Clauses'', StrCell (opt_str_else_null (integration_clauses contract_data))),
     (''Data Ownership'', StrCell (str_or (data_ownership contract_data) ''DEALER'')),
     (''License Count'',
        StrCell (if license_count contract_data \<noteq> - 1
                 then str_int (license_count contract_data) else ''Unlimited''))]"

definition shown :: "(string \<times> cell) list \<Rightarrow> string \<Rightarrow> cell option" where
  \<comment> \<open>the value the table shows under a label\<close>
  "shown d label = map_of d label"

section \<open>Construction of a SoftwareContract from a raw mapping\<close>

text \<open>
  The class declares three required string fields, twelve optional fields with default
  \<^verbatim>\<open>None\<close>, and two fields with a default value. The conversion of one raw value to a
  field's type is the validation library's; it is taken as a parameter, one function per
  field type (\<open>None\<close>: the value is rejected). Keys that are not fields are ignored.
  A failed validation is \<open>None\<close>.
\<close>

record 'f validators =
  str_of :: "'f json \<Rightarrow> string option"
  int_of :: "'f json \<Rightarrow> int option"
  float_of :: "'f json \<Rightarrow> 'f option"
  bool_of :: "'f json \<Rightarrow> bool option"

definition required_field :: "('f json \<Rightarrow> 'a option) \<Rightarrow> (string \<times> 'f json) list \<Rightarrow> string \<Rightarrow> 'a option" where
  "required_field conv kv k = (case map_of kv k of None \<Rightarrow> None | Some v \<Rightarrow> conv v)"

definition optional_field ::
  "('f json \<Rightarrow> 'a option) \<Rightarrow> (string \<times> 'f json) list \<Rightarrow> string \<Rightarrow> 'a option option" where
  "optional_field conv kv k =
     (case map_of kv k of
        None \<Rightarrow> Some None
      | Some JNull \<Rightarrow> Some None
      | Some v \<Rightarrow> (case conv v of None \<Rightarrow> None | Some a \<Rightarrow> Some (Some a)))"

definition default_field ::
  "('f json \<Rightarrow> 'a option) \<Rightarrow> 'a \<Rightarrow> (string \<times> 'f json) list \<Rightarrow> string \<Rightarrow> 'a option" where
  "default_field conv d kv k = (case map_of kv k of None \<Rightarrow> Some d | Some v \<Rightarrow> conv v)"

definition SoftwareContract_validate :: "'f validators \<Rightarrow> 'f json \<Rightarrow> 'f SoftwareContract option" where
  "SoftwareContract_validate v raw =
     (case raw of
        JObj kv \<Rightarrow> do {
          f1 \<leftarrow> required_field (str_of v) kv ''software_system_name'';
          f2 \<leftarrow> required_field (str_of v) kv ''vendor_name_dba'';
          f3 \<leftarrow> required_field (str_of v) kv ''vendor_name_legal'';
          f4 \<leftarrow> optional_field (str_of v) kv ''contract_start'';
          f5 \<leftarrow> optional_field (str_of v) kv ''contract_end'';
          f6 \<leftarrow> optional_field (int_of v) kv ''contract_period'';
          f7 \<leftarrow> optional_field (bool_of v) kv ''auto_renewal'';
          f8 \<leftarrow> optional_field (int_of v) kv ''cancellation_notice_initial'';
          f9 \<leftarrow> optional_field (int_of v) kv ''cancellation_notice_ongoing'';
          f10 \<leftarrow> optional_field (str_of v) kv ''payment_terms'';
          f11 \<leftarrow> optional_field (int_of v) kv ''payment_delay'';
          f12 \<leftarrow> optional_field (float_of v) kv ''payment_amount_setup'';
          f13 \<leftarrow> optional_field (float_of v) kv ''payment_amount_per_terms'';
          f14 \<leftarrow> optional_field (str_of v) kv ''sla_uptime_guarantee'';
          f15 \<leftarrow> optional_field (str_of v) kv ''integration_clauses'';
          f16 \<leftarrow> default_field (str_of v) ''DEALER'' kv ''data_ownership'';
          f17 \<leftarrow> default_field (int_of v) (- 1) kv ''license_count'';
          Some \<lparr>software_system_name = f1, vendor_name_dba = f2, vendor_name_legal = f3,
                contract_start = f4, contract_end = f5, contract_period = f6,
                auto_renewal = f7, cancellation_notice_initial = f8,
                cancellation_notice_ongoing = f9, payment_terms = f10, payment_delay = f11,
                payment_amount_setup = f12, payment_amount_per_terms = f13,
                sla_uptime_guarantee = f14, integration_clauses = f15,
                data_ownership = f16, license_count = f17\<rparr>
        }
      | _ \<Rightarrow> None)"

definition accepts_typed :: "'f validators \<Rightarrow> bool" where
  \<comment> \<open>a value that already has the field's type is taken as it is\<close>
  "accepts_typed v \<longleftrightarrow>
     (\<forall>s. str_of v (JStr s) = Some s) \<and> (\<forall>n. int_of v (JInt n) = Some n)"

definition strict_validators :: "'f validators" where
  \<comment> \<open>the validators that take nothing but a value of the field's own type\<close>
  "strict_validators =
     \<lparr>str_of = (\<lambda>j. case j of JStr s \<Rightarrow> Some s | _ \<Rightarrow> None),
      int_of = (\<lambda>j. case j of JInt n \<Rightarrow> Some n | _ \<Rightarrow> None),
      float_of = (\<lambda>j. case j of JFloat x \<Rightarrow> Some x | _ \<Rightarrow> None),
      bool_of = (\<lambda>j. case j of JBool b \<Rightarrow> Some b | _ \<Rightarrow> None)\<rparr>"

section \<open>The world: files and the log\<close>

text \<open>
  A file system gives, for a path as the operating system resolves it, the file or
  directory found there. The messages of the exceptions are CPython 3.11's, for names
  without quotes or escapes.
\<close>

datatype node = File bytes | Dir

definition ascii :: "string \<Rightarrow> bytes" where
  \<comment> \<open>the bytes of an ASCII text\<close>
  "ascii s = map of_char s"

definition py_repr :: "string \<Rightarrow> string" where
  "py_repr s = CHR 0x27 # s @ [CHR 0x27]"

datatype level = INFO | WARNING | ERROR

record world =
  fs :: "string \<rightharpoonup> node"
  logs :: "(level \<times> string) list"

definition logger :: "level \<Rightarrow> string \<Rightarrow> world \<Rightarrow> world" where
  "logger l m w = w\<lparr>logs := logs w @ [(l, m)]\<rparr>"

definition read_file :: "(string \<rightharpoonup> node) \<Rightarrow> string \<Rightarrow> py_exception + bytes" where
  \<comment> \<open>\<^verbatim>\<open>open(p).read()\<close> and \<^verbatim>\<open>Path(p).read_bytes()\<close>\<close>
  "read_file fsys p =
     (case fsys p of
        None \<Rightarrow> Inl (PyExc FileNotFoundError (''[Errno 2] No such file or directory: '' @ py_repr p))
      | Some Dir \<Rightarrow> Inl (PyExc IsADirectoryError (''[Errno 21] Is a directory: '' @ py_repr p))
      | Some (File b) \<Rightarrow> Inr b)"

definition os_unlink :: "string \<Rightarrow> world \<Rightarrow> py_exception + world" where
  "os_unlink p w =
     (case fs w p of
        None \<Rightarrow> Inl (PyExc FileNotFoundError (''[Errno 2] No such file or directory: '' @ py_repr p))
      | Some Dir \<Rightarrow> Inl (PyExc IsADirectoryError (''[Errno 21] Is a directory: '' @ py_repr p))
      | Some (File b) \<Rightarrow> Inr (w\<lparr>fs := (fs w)(p := None)\<rparr>))"

section \<open>class ContractExtractor (processor.py)\<close>

text \<open>
  The request sent to the model is a list of texts and binary parts. The client is the
  extractor's \<^verbatim>\<open>self.client.models.generate_content\<close> with the fixed model name and
  configuration of the source: a function from the contents to a raise or a response,
  whose \<^verbatim>\<open>parsed\<close> attribute is a SoftwareContract or \<^verbatim>\<open>None\<close>.
  \<^verbatim>\<open>json.load\<close> and \<^verbatim>\<open>json.dumps(_, indent=2)\<close> are parameters as well.
\<close>

datatype content = Text string | Part bytes string

record 'f response =
  parsed :: "'f SoftwareContract option"

record 'f pylib =
  json_load :: "bytes \<Rightarrow> py_exception + 'f json"
  json_dumps :: "'f json \<Rightarrow> string"

record 'f ContractExtractor =
  client :: "content list \<Rightarrow> py_exception + 'f response"
  few_shot_examples_path :: "string option"
  system_prompt :: string
  main_prompt :: string

text \<open>
  The constructor stores the client and the manifest path and sets the two prompts.
  The system prompt is the source's text, line by line.
\<close>

fun join_lines :: "string list \<Rightarrow> string" where
  "join_lines [] = []"
| "join_lines [l] = l"
| "join_lines (l # ls) = l @ CHR 0x0A # join_lines ls"

definition SYSTEM_PROMPT :: string where
  \<open>SYSTEM_PROMPT = join_lines
    ['''',
     ''        You are an AI assistant specialized in extracting specific information from software contracts.'',
     ''        Extract EXACTLY these fields from the contract. Pay close attention to the exact field names and data types.'',
     '''',
     ''        1. Software/System Name: The name of the product or service'',
     ''        2. Vendor Name (DBA): Company name doing business as'',
     ''        3. Vendor Name (Legal Entity): Legal entity name of the company'',
     ''        4. Contract Start: Start date of the contract (format: YYYY-MM-DD)'',
     ''        5. Contract End: End date of the contract (can be NULL if not specified)'',
     ''        6. Contract Period: Duration in months (integer)'',
     ''        7. Auto-renewal: Is the contract automatically renewed? (boolean: true/false)'',
     ''        8. Cancellation Notice (Initial Term): Days required to cancel during initial term (integer)'',
     ''        9. Cancellation Notice (Ongoing): Days required to cancel after initial term (integer)'',
     ''        10. Payment Terms: Monthly, yearly, per user subscription, per license, or other'',
     ''        11. Payment Amount Setup Fee: One-time setup fee amount (float)'',
     ''        12. Payment Amount Per Terms: Recurring payment amount (float)'',
     ''        13. SLA/Uptime Guarantee: Any service level agreement terms (can be NULL)'',
     ''        14. Integration Clauses: Compatibility with DMS/CRM systems'',
     ''        15. Data Ownership: Who owns the data (default to "DEALER" if not specified)'',
     ''        16. License Count: Number of licenses/users/seats (use -1 for unlimited)'',
     '''',
     ''        IMPORTANT:'',
     ''        - Use NULL for missing string values'',
     ''        - Use null for missing date values'',
     ''        - Use appropriate data types (string, integer, float, boolean)'',
     ''        - For License Count, if unlimited or not specified, use -1'',
     ''        - For Data Ownership, if not specified, default to "DEALER"'',
     ''        - Extract dates in YYYY-MM-DD format'',
     ''        - For payment amounts, extract numeric values only (no currency symbols)'',
     ''        '']\<close>

definition MAIN_PROMPT :: string where
  "MAIN_PROMPT = ''Please extract the contract information from the attached PDF document according to the specified fields.''"

definition ContractExtractor_init ::
  "(content list \<Rightarrow> py_exception + 'f response) \<Rightarrow> string option \<Rightarrow> 'f ContractExtractor" where
  "ContractExtractor_init cl path =
     \<lparr>client = cl, few_shot_examples_path = path,
      system_prompt = SYSTEM_PROMPT, main_prompt = MAIN_PROMPT\<rparr>"

subsection \<open>Operations of Python on loaded JSON\<close>

fun is_prefix :: "'a list \<Rightarrow> 'a list \<Rightarrow> bool" where
  "is_prefix [] ys = True"
| "is_prefix (x # xs) [] = False"
| "is_prefix (x # xs) (y # ys) = (x = y \<and> is_prefix xs ys)"

fun str_contains :: "string \<Rightarrow> string \<Rightarrow> bool" where
  "str_contains needle [] = (needle = [])"
| "str_contains needle (h # hs) = (is_prefix needle (h # hs) \<or> str_contains needle hs)"

fun py_type :: "'f json \<Rightarrow> string" where
  \<comment> \<open>\<^verbatim>\<open>type(x).__name__\<close>\<close>
  "py_type JNull = ''NoneType''"
| "py_type (JBool b) = ''bool''"
| "py_type (JInt n) = ''int''"
| "py_type (JFloat x) = ''float''"
| "py_type (JStr s) = ''str''"
| "py_type (JArr xs) = ''list''"
| "py_type (JObj kv) = ''dict''"

fun py_in :: "string \<Rightarrow> 'f json \<Rightarrow> py_exception + bool" where
  \<comment> \<open>\<^verbatim>\<open>k in x\<close> for a string \<open>k\<close>: a key of a dict, an element of a list, a substring of a string\<close>
  "py_in k (JObj kv) = Inr (k \<in> set (map fst kv))"
| "py_in k (JArr xs) = Inr (JStr k \<in> set xs)"
| "py_in k (JStr s) = Inr (str_contains k s)"
| "py_in k x = Inl (PyExc TypeError (''argument of type '' @ py_repr (py_type x) @ '' is not iterable''))"

fun py_get :: "'f json \<Rightarrow> string \<Rightarrow> 'f json \<Rightarrow> py_exception + 'f json" where
  \<comment> \<open>\<^verbatim>\<open>x.get(k, d)\<close>: only a dict has the method\<close>
  "py_get (JObj kv) k d = Inr (case map_of kv k of None \<Rightarrow> d | Some v \<Rightarrow> v)"
| "py_get x k d =
     Inl (PyExc AttributeError (py_repr (py_type x) @ '' object has no attribute '' @ py_repr ''get''))"

fun py_getitem :: "'f json \<Rightarrow> string \<Rightarrow> py_exception + 'f json" where
  \<comment> \<open>\<^verbatim>\<open>x[k]\<close> for a string \<open>k\<close>\<close>
  "py_getitem (JObj kv) k =
     (case map_of kv k of None \<Rightarrow> Inl (PyExc KeyError (py_repr k)) | Some v \<Rightarrow> Inr v)"
| "py_getitem (JArr xs) k = Inl (PyExc TypeError ''list indices must be integers or slices, not str'')"
| "py_getitem (JStr s) k = Inl (PyExc TypeError ''string indices must be integers'')"
| "py_getitem x k = Inl (PyExc TypeError (py_repr (py_type x) @ '' object is not subscriptable''))"

text \<open>
  \<^verbatim>\<open>Path(s)\<close> on a POSIX system keeps the root (\<^verbatim>\<open>/\<close>, or \<^verbatim>\<open>//\<close> for exactly two
  leading slashes), drops the empty and the \<^verbatim>\<open>.\<close> components, and is \<^verbatim>\<open>.\<close> when
  nothing is left: the path of the empty string is the current directory.
\<close>

fun split_on :: "char \<Rightarrow> string \<Rightarrow> string list" where
  "split_on c [] = [[]]"
| "split_on c (x # xs) =
     (if x = c then [] # split_on c xs
      else (case split_on c xs of [] \<Rightarrow> [[x]] | h # t \<Rightarrow> (x # h) # t))"

fun join_with :: "string \<Rightarrow> string list \<Rightarrow> string" where
  "join_with sep [] = []"
| "join_with sep [p] = p"
| "join_with sep (p # ps) = p @ sep @ join_with sep ps"

definition posix_root :: "string \<Rightarrow> string" where
  "posix_root s =
     (if is_prefix ''//'' s \<and> \<not> is_prefix ''///'' s then ''//''
      else if is_prefix ''/'' s then ''/'' else [])"

definition posix_path :: "string \<Rightarrow> string" where
  \<comment> \<open>\<^verbatim>\<open>str(Path(s))\<close>\<close>
  "posix_path s =
     (let r = posix_root s @ join_with ''/'' (filter (\<lambda>p. p \<noteq> [] \<and> p \<noteq> ''.'') (split_on CHR ''/'' s))
      in if r = [] then ''.'' else r)"

fun path_of :: "'f json \<Rightarrow> py_exception + string" where
  \<comment> \<open>\<^verbatim>\<open>Path(x)\<close>\<close>
  "path_of (JStr s) = Inr (posix_path s)"
| "path_of x = Inl (PyExc TypeError (''expected str, bytes or os.PathLike object, not '' @ py_type x))"

fun the_str :: "'f json \<Rightarrow> string" where
  \<comment> \<open>what an f-string writes for a string value\<close>
  "the_str (JStr s) = s"
| "the_str _ = []"

fun py_iter :: "'f json \<Rightarrow> py_exception + 'f json list" where
  \<comment> \<open>what \<^verbatim>\<open>for example in x\<close> runs over: the elements of a list, the keys of a dict,
      the characters of a string\<close>
  "py_iter (JArr xs) = Inr xs"
| "py_iter (JObj kv) = Inr (map (\<lambda>(k, _). JStr k) kv)"
| "py_iter (JStr s) = Inr (map (\<lambda>c. JStr [c]) s)"
| "py_iter x = Inl (PyExc TypeError (py_repr (py_type x) @ '' object is not iterable''))"

subsection \<open>create_few_shot_examples\<close>

text \<open>
  One pass of the loop body: a raise, or what the example adds to
  \<^verbatim>\<open>few_shot_examples\<close> together with what it logs. The warning writes
  \<^verbatim>\<open>example['pdf_path']\<close>, the string as the manifest has it.
\<close>

definition process_example ::
  "'f pylib \<Rightarrow> (string \<rightharpoonup> node) \<Rightarrow> 'f json \<Rightarrow> py_exception + (content list \<times> (level \<times> string) list)" where
  "process_example lib fsys example =
     (case py_get example ''expected_output'' (JObj []) of
        Inl e \<Rightarrow> Inl e
      | Inr expected \<Rightarrow>
          (case py_in ''vehicle_vin'' expected of
             Inl e \<Rightarrow> Inl e
           | Inr True \<Rightarrow>
               Inr ([], [(INFO, ''Skipping vehicle title example - not applicable for software contracts'')])
           | Inr False \<Rightarrow>
               (case py_getitem example ''pdf_path'' of
                  Inl e \<Rightarrow> Inl e
                | Inr pv \<Rightarrow>
                    (case path_of pv of
                       Inl e \<Rightarrow> Inl e
                     | Inr filepath \<Rightarrow>
                         if fsys filepath = None
                         then Inr ([], [(WARNING, ''Example PDF file not found: '' @ the_str pv)])
                         else
                           (case read_file fsys filepath of
                              Inl e \<Rightarrow> Inl e
                            | Inr data \<Rightarrow>
                                Inr ([Text ''Please extract the contract information from the following PDF'',
                                      Part data ''application/pdf'',
                                      Text (json_dumps lib expected)], []))))))"

text \<open>
  The loop: the raise that ended it, if any, with the list and the log as they were then.
\<close>

fun examples_loop ::
  "'f pylib \<Rightarrow> (string \<rightharpoonup> node) \<Rightarrow> 'f json list \<Rightarrow> content list \<Rightarrow> (level \<times> string) list
     \<Rightarrow> py_exception option \<times> content list \<times> (level \<times> string) list" where
  "examples_loop lib fsys [] acc lg = (None, acc, lg)"
| "examples_loop lib fsys (example # rest) acc lg =
     (case process_example lib fsys example of
        Inl e \<Rightarrow> (Some e, acc, lg)
      | Inr (added, said) \<Rightarrow> examples_loop lib fsys rest (acc @ added) (lg @ said))"

definition try_load_examples ::
  "'f pylib \<Rightarrow> string \<Rightarrow> world \<Rightarrow> py_exception option \<times> content list \<times> (level \<times> string) list" where
  \<comment> \<open>the body of the \<^verbatim>\<open>try\<close>\<close>
  "try_load_examples lib path w =
     (case read_file (fs w) path of
        Inl e \<Rightarrow> (Some e, [], logs w)
      | Inr text \<Rightarrow>
          (case json_load lib text of
             Inl e \<Rightarrow> (Some e, [], logs w)
           | Inr examples \<Rightarrow>
               (case py_iter examples of
                  Inl e \<Rightarrow> (Some e, [], logs w)
                | Inr xs \<Rightarrow> examples_loop lib (fs w) xs [] (logs w))))"

definition create_few_shot_examples ::
  "'f pylib \<Rightarrow> 'f ContractExtractor \<Rightarrow> world \<Rightarrow> content list \<times> world" where
  "create_few_shot_examples lib self w =
     (case few_shot_examples_path self of
        None \<Rightarrow> ([], w)
      | Some path \<Rightarrow>
          if path = [] \<or> fs w path = None then ([], w)
          else
            (case try_load_examples lib path w of
               (None, few_shot_examples, lg) \<Rightarrow> (few_shot_examples, w\<lparr>logs := lg\<rparr>)
             | (Some e, few_shot_examples, lg) \<Rightarrow>
                 (few_shot_examples,
                  w\<lparr>logs := lg @ [(WARNING, ''Could not load few-shot examples: '' @ str_exc e)]\<rparr>)))"

subsection \<open>extract_data_from_pdf, extract_data_from_file, extract_data_from_uploaded_file\<close>

definition request_contents :: "'f ContractExtractor \<Rightarrow> content list \<Rightarrow> bytes \<Rightarrow> content list" where
  \<comment> \<open>the \<^verbatim>\<open>contents\<close> argument of \<^verbatim>\<open>generate_content\<close>\<close>
  "request_contents self few_shot_examples pdf_data =
     [Text (system_prompt self)] @ few_shot_examples
       @ [Part pdf_data ''application/pdf'', Text (main_prompt self)]"

definition extract_data_from_pdf ::
  "'f pylib \<Rightarrow> 'f ContractExtractor \<Rightarrow> bytes \<Rightarrow> world
     \<Rightarrow> (py_exception + 'f SoftwareContract option) \<times> world" where
  "extract_data_from_pdf lib self pdf_data w =
     (let (few_shot_examples, w1) = create_few_shot_examples lib self w in
      case client self (request_contents self few_shot_examples pdf_data) of
        Inl e \<Rightarrow> (Inl e, logger ERROR (''Error extracting contract data from PDF: '' @ str_exc e) w1)
      | Inr response \<Rightarrow> (Inr (parsed response), w1))"

definition extract_data_from_file ::
  "'f pylib \<Rightarrow> 'f ContractExtractor \<Rightarrow> string \<Rightarrow> world
     \<Rightarrow> (py_exception + 'f SoftwareContract option) \<times> world" where
  "extract_data_from_file lib self pdf_file_path w =
     (case read_file (fs w) pdf_file_path of
        Inl e \<Rightarrow> (Inl e, w)
      | Inr pdf_data \<Rightarrow> extract_data_from_pdf lib self pdf_data w)"

text \<open>
  A Streamlit uploaded file is an in-memory buffer: \<^verbatim>\<open>getvalue()\<close> gives its bytes and
  raises ValueError once the buffer is closed. \<open>temp_file_path\<close> is the name that
  \<^verbatim>\<open>NamedTemporaryFile(delete=False, suffix=".pdf")\<close> chose; the file is created empty
  when the \<^verbatim>\<open>with\<close> block is entered and is kept when the block is left.
\<close>

record uploaded_file =
  buffer :: bytes
  closed :: bool

definition getvalue :: "uploaded_file \<Rightarrow> py_exception + bytes" where
  "getvalue u = (if closed u then Inl (PyExc ValueError ''I/O operation on closed file.'') else Inr (buffer u))"

definition extract_data_from_uploaded_file ::
  "'f pylib \<Rightarrow> 'f ContractExtractor \<Rightarrow> string \<Rightarrow> uploaded_file \<Rightarrow> world
     \<Rightarrow> (py_exception + 'f SoftwareContract option) \<times> world" where
  "extract_data_from_uploaded_file lib self temp_file_path uploaded w =
     (let w1 = w\<lparr>fs := (fs w)(temp_file_path \<mapsto> File [])\<rparr> in
      case getvalue uploaded of
        Inl e \<Rightarrow> (Inl e, w1)
      | Inr data \<Rightarrow>
          (let w2 = w1\<lparr>fs := (fs w1)(temp_file_path \<mapsto> File data)\<rparr>;
               (result, w3) = extract_data_from_file lib self temp_file_path w2
           in case os_unlink temp_file_path w3 of
                Inl e \<Rightarrow> (Inl e, w3)
              | Inr w4 \<Rightarrow> (result, w4)))"

text \<open>
  A client for a provider that answers with a raw JSON value. The call is made with
  \<^verbatim>\<open>response_schema = SoftwareContract\<close>, so the response's \<^verbatim>\<open>parsed\<close> is the
  SoftwareContract built from the answer, or \<^verbatim>\<open>None\<close> when the answer does not
  validate.
\<close>

definition schema_client ::
  "'f validators \<Rightarrow> (content list \<Rightarrow> py_exception + 'f json) \<Rightarrow> content list \<Rightarrow> py_exception + 'f response" where
  "schema_client v provider contents =
     (case provider contents of
        Inl e \<Rightarrow> Inl e
      | Inr raw \<Rightarrow> Inr \<lparr>parsed = SoftwareContract_validate v raw\<rparr>)"

text \<open>
  The paths that the manifest's entries name: what create_few_shot_examples may look up in
  the file system besides the manifest itself.
\<close>

fun entry_path :: "'f json \<Rightarrow> string list" where
  "entry_path (JObj kv) = (case map_of kv ''pdf_path'' of Some (JStr p) \<Rightarrow> [posix_path p] | _ \<Rightarrow> [])"
| "entry_path _ = []"

definition manifest_paths :: "'f pylib \<Rightarrow> 'f ContractExtractor \<Rightarrow> world \<Rightarrow> string list" where
  "manifest_paths lib self w =
     (case few_shot_examples_path self of
        None \<Rightarrow> []
      | Some path \<Rightarrow>
          (case read_file (fs w) path of
             Inl e \<Rightarrow> []
           | Inr text \<Rightarrow>
               (case json_load lib text of
                  Inl e \<Rightarrow> []
                | Inr examples \<Rightarrow>
                    (case py_iter examples of
                       Inl e \<Rightarrow> []
                     | Inr xs \<Rightarrow> concat (map entry_path xs)))))"

definition with_manifest :: "'f pylib \<Rightarrow> 'f json \<Rightarrow> 'f pylib" where
  \<comment> \<open>the same library, where the manifest file parses to \<open>examples\<close>\<close>
  "with_manifest lib examples = lib\<lparr>json_load := (\<lambda>_. Inr examples)\<rparr>"

section \<open>Example values\<close>

definition ex_contract_minimal :: "pyfloat SoftwareContract" where
  "ex_contract_minimal =
     \<lparr>software_system_name = ''DealerCRM'', vendor_name_dba = ''Acme'',
      vendor_name_legal = ''Acme Software Inc.'',
      contract_start = None, contract_end = None, contract_period = None,
      auto_renewal = None, cancellation_notice_initial = None,
      cancellation_notice_ongoing = None, payment_terms = None, payment_delay = None,
      payment_amount_setup = None, payment_amount_per_terms = None,
      sla_uptime_guarantee = None, integration_clauses = None,
      data_ownership = ''DEALER'', license_count = - 1\<rparr>"

text \<open>The floats 1500.0 and 49.99 (the double nearest to it).\<close>

definition ex_contract_paid :: "pyfloat SoftwareContract" where
  "ex_contract_paid =
     ex_contract_minimal\<lparr>payment_amount_setup := Some (Finite False 1500 0),
                         payment_amount_per_terms := Some (Finite False 7035467042882847 (- 47))\<rparr>"

definition ex_contract_inf :: "pyfloat SoftwareContract" where
  "ex_contract_inf = ex_contract_minimal\<lparr>payment_amount_setup := Some (Inf False)\<rparr>"

definition ex_contract_vendor :: "pyfloat SoftwareContract" where
  "ex_contract_vendor = ex_contract_minimal\<lparr>data_ownership := ''VENDOR'', license_count := 25\<rparr>"

definition ex_contract_empty_owner :: "pyfloat SoftwareContract" where
  "ex_contract_empty_owner = ex_contract_minimal\<lparr>data_ownership := []\<rparr>"

definition ex_contract_falsy :: "pyfloat SoftwareContract" where
  "ex_contract_falsy =
     \<lparr>software_system_name = [], vendor_name_dba = [], vendor_name_legal = [],
      contract_start = Some [], contract_end = Some [], contract_period = Some 0,
      auto_renewal = Some False, cancellation_notice_initial = Some 0,
      cancellation_notice_ongoing = Some 0, payment_terms = Some [], payment_delay = Some 0,
      payment_amount_setup = Some (Finite False 0 0),
      payment_amount_per_terms = Some (Finite False 0 0),
      sla_uptime_guarantee = Some [], integration_clauses = Some [],
      data_ownership = ''DEALER'', license_count = 0\<rparr>"

definition ex_pdf :: bytes where
  "ex_pdf = ascii ''%PDF''"

definition ex_good_items :: "(string \<times> pyfloat json) list" where
  "ex_good_items = [(''pdf_path'', JStr ''contracts/a.pdf''), (''expected_output'', JObj [])]"

definition ex_vin_items :: "(string \<times> pyfloat json) list" where
  "ex_vin_items =
     [(''pdf_path'', JStr ''contracts/a.pdf''),
      (''expected_output'', JObj [(''vehicle_vin'', JStr ''1HGCM82633A004352'')])]"

definition ex_foreign_items :: "(string \<times> pyfloat json) list" where
  "ex_foreign_items =
     [(''pdf_path'', JStr ''contracts/a.pdf''),
      (''expected_output'', JObj [(''invoice_id'', JStr ''INV-1'')])]"

definition ex_missing_items :: "(string \<times> pyfloat json) list" where
  "ex_missing_items =
     [(''pdf_path'', JStr ''contracts/missing.pdf''), (''expected_output'', JObj [])]"

definition ex_vin_missing_items :: "(string \<times> pyfloat json) list" where
  "ex_vin_missing_items =
     [(''pdf_path'', JStr ''contracts/missing.pdf''),
      (''expected_output'', JObj [(''vehicle_vin'', JStr ''1HGCM82633A004352'')])]"

text \<open>The texts of three manifest files.\<close>

definition ex_partial_text :: bytes where
  \<open>ex_partial_text = ascii
     ''[{"pdf_path": "contracts/a.pdf", "expected_output": {}}, {}, {"pdf_path": "contracts/a.pdf", "expected_output": {}}]''\<close>

definition ex_foreign_text :: bytes where
  \<open>ex_foreign_text = ascii
     ''[{"pdf_path": "contracts/a.pdf", "expected_output": {"invoice_id": "INV-1"}}]''\<close>

definition ex_vin_missing_text :: bytes where
  \<open>ex_vin_missing_text = ascii
     ''[{"pdf_path": "contracts/missing.pdf", "expected_output": {"vehicle_vin": "1HGCM82633A004352"}}]''\<close>

text \<open>
  \<^verbatim>\<open>json.load\<close> and \<^verbatim>\<open>json.dumps(_, indent=2)\<close> on the texts and values of the examples:
  the empty list, the three manifests, and a text that is not JSON.
\<close>

definition ex_json_load :: "bytes \<Rightarrow> py_exception + pyfloat json" where
  "ex_json_load content =
     (if content = ascii ''[]'' then Inr (JArr [])
      else if content = ex_partial_text
      then Inr (JArr [JObj ex_good_items, JObj [], JObj ex_good_items])
      else if content = ex_foreign_text then Inr (JArr [JObj ex_foreign_items])
      else if content = ex_vin_missing_text then Inr (JArr [JObj ex_vin_missing_items])
      else Inl (PyExc JSONDecodeError ''Expecting value: line 1 column 1 (char 0)''))"

definition ex_json_dumps :: "pyfloat json \<Rightarrow> string" where
  \<open>ex_json_dumps j =
     (if j = JObj [(''invoice_id'', JStr ''INV-1'')]
      then ''{'' @ CHR 0x0A # ''  "invoice_id": "INV-1"'' @ CHR 0x0A # ''}''
      else ''{}'')\<close>

definition ex_lib :: "pyfloat pylib" where
  "ex_lib = \<lparr>json_load = ex_json_load, json_dumps = ex_json_dumps\<rparr>"

definition ex_world :: world where
  "ex_world =
     \<lparr>fs = [''examples.json'' \<mapsto> File (ascii ''[]''),
             ''broken.json'' \<mapsto> File (ascii ''not json''),
             ''partial.json'' \<mapsto> File ex_partial_text,
             ''foreign.json'' \<mapsto> File ex_foreign_text,
             ''vin_missing.json'' \<mapsto> File ex_vin_missing_text,
             ''contracts/a.pdf'' \<mapsto> File ex_pdf,
             ''examples_dir'' \<mapsto> Dir,
             ''.'' \<mapsto> Dir],
      logs = []\<rparr>"

definition ex_answer_required_only :: "(string \<times> pyfloat json) list" where
  "ex_answer_required_only =
     [(''software_system_name'', JStr ''DealerCRM''), (''vendor_name_dba'', JStr ''Acme''),
      (''vendor_name_legal'', JStr ''Acme Software Inc.'')]"

definition ex_answer_explicit :: "(string \<times> pyfloat json) list" where
  "ex_answer_explicit =
     ex_answer_required_only @ [(''data_ownership'', JStr ''DEALER''), (''license_count'', JInt (- 1))]"

definition ex_answer_vendor :: "(string \<times> pyfloat json) list" where
  "ex_answer_vendor =
     ex_answer_required_only @ [(''data_ownership'', JStr ''VENDOR''), (''license_count'', JInt 25)]"

definition ex_answer_empty_owner :: "(string \<times> pyfloat json) list" where
  "ex_answer_empty_owner = ex_answer_required_only @ [(''data_ownership'', JStr [])]"

definition ex_provider :: "(string \<times> pyfloat json) list \<Rightarrow> content list \<Rightarrow> py_exception + pyfloat json" where
  "ex_provider kv contents = Inr (JObj kv)"

definition ex_extractor_answering :: "(string \<times> pyfloat json) list \<Rightarrow> pyfloat ContractExtractor" where
  "ex_extractor_answering kv =
     ContractExtractor_init (schema_client strict_validators (ex_provider kv)) None"

definition ex_extractor_down :: "string option \<Rightarrow> pyfloat ContractExtractor" where
  "ex_extractor_down path = ContractExtractor_init (\<lambda>_. Inl (PyExc APIError ''503 UNAVAILABLE'')) path"

definition ex_upload :: uploaded_file where
  "ex_upload = \<lparr>buffer = ex_pdf, closed = False\<rparr>"

definition ex_upload_closed :: uploaded_file where
  "ex_upload_closed = \<lparr>buffer = ex_pdf, closed = True\<rparr>"

definition ex_tmp :: string where
  "ex_tmp = ''/tmp/tmpk3v9x2ab.pdf''"

definition ex_extractor_full :: "pyfloat ContractExtractor" where
  "ex_extractor_full =
     ContractExtractor_init (schema_client strict_validators (ex_provider ex_answer_required_only))
       (Some ''examples.json'')"

definition ex_good_triple :: "content list" where
  "ex_good_triple =
     [Text ''Please extract the contract information from the following PDF'',
      Part ex_pdf ''application/pdf'', Text ''{}'']"

definition ex_foreign_triple :: "content list" where
  \<open>ex_foreign_triple =
     [Text ''Please extract the contract information from the following PDF'',
      Part ex_pdf ''application/pdf'',
      Text (''{'' @ CHR 0x0A # ''  "invoice_id": "INV-1"'' @ CHR 0x0A # ''}'')]\<close>

section \<open>Properties\<close>

subsection \<open>\<^verbatim>\<open>str\<close> of an integer\<close>

lemma digit_char_not_L: "d < 10 \<Longrightarrow> digit_char d \<noteq> CHR ''L''"
proof -
  assume "d < 10"
  then have "d \<in> {0,1,2,3,4,5,6,7,8,9}" by auto
  then show ?thesis by (auto simp: digit_char_def)
qed

lemma last_str_nat: "last (str_nat n) = digit_char (n mod 10)"
  by (induction n rule: str_nat.induct) (subst str_nat.simps, simp)

lemma str_nat_nonempty: "str_nat n \<noteq> []"
  by (subst str_nat.simps) simp

lemma last_str_int: "last (str_int i) = digit_char (nat \<bar>i\<bar> mod 10)"
  by (simp add: str_int_def last_str_nat str_nat_nonempty)

lemma str_int_nonempty: "str_int i \<noteq> []"
  by (simp add: str_int_def str_nat_nonempty)

lemma str_int_not_NULL: "str_int i \<noteq> ''NULL''"
proof
  assume "str_int i = ''NULL''"
  then have "last (str_int i) = CHR ''L''" by simp
  then show False using digit_char_not_L [of "nat \<bar>i\<bar> mod 10"] by (simp add: last_str_int)
qed

lemma str_int_0: "str_int 0 = ''0''"
  by (simp add: str_int_def digit_char_def)

subsection \<open>The table of display_contract_data, label by label\<close>

lemma shown_display:
  "shown (display_contract_data c) ''Software/System Name'' = Some (StrCell (str_or (software_system_name c) ''NULL''))"
  "shown (display_contract_data c) ''Vendor Name (DOING BUSINESS AS)'' = Some (StrCell (str_or (vendor_name_dba c) ''NULL''))"
  "shown (display_contract_data c) ''Vendor Name (LEGAL ENTITY)'' = Some (StrCell (str_or (vendor_name_legal c) ''NULL''))"
  "shown (display_contract_data c) ''Contract Start'' = Some (StrCell (opt_str_else_null (contract_start c)))"
  "shown (display_contract_data c) ''Contract End'' = Some (StrCell (opt_str_else_null (contract_end c)))"
  "shown (display_contract_data c) ''Contract Period'' =
     Some (StrCell (case contract_period c of Some n \<Rightarrow> str_int n @ '' months'' | None \<Rightarrow> ''NULL''))"
  "shown (display_contract_data c) ''Auto-renewal'' =
     Some (StrCell (if auto_renewal c = Some True then ''TRUE''
                    else if auto_renewal c = Some False then ''FALSE'' else ''NULL''))"
  "shown (display_contract_data c) ''Cancellation Notice (INITIAL TERM, DAYS)'' =
     Some (StrCell (case cancellation_notice_initial c of Some n \<Rightarrow> str_int n | None \<Rightarrow> ''NULL''))"
  "shown (display_contract_data c) ''Cancellation Notice (ONGOING, DAYS)'' =
     Some (StrCell (case cancellation_notice_ongoing c of Some n \<Rightarrow> str_int n | None \<Rightarrow> ''NULL''))"
  "shown (display_contract_data c) ''Payment Terms'' = Some (StrCell (opt_str_else_null (payment_terms c)))"
  "shown (display_contract_data c) ''Payment Delay'' =
     Some (case payment_delay c of None \<Rightarrow> StrCell ''NULL''
           | Some n \<Rightarrow> if n = 0 then StrCell ''NULL'' else IntCell n)"
  "shown (display_contract_data c) ''Payment amount, setup fee'' =
     Some (StrCell (case payment_amount_setup c of Some x \<Rightarrow> CHR ''$'' # format_2f x | None \<Rightarrow> ''NULL''))"
  "shown (display_contract_data c) ''Payment amount per terms'' =
     Some (StrCell (case payment_amount_per_terms c of Some x \<Rightarrow> CHR ''$'' # format_2f x | None \<Rightarrow> ''NULL''))"
  "shown (display_contract_data c) ''SLA/Uptime Guarantee'' = Some (StrCell (opt_str_else_null (sla_uptime_guarantee c)))"
  "shown (display_contract_data c) ''Integration Clauses'' = Some (StrCell (opt_str_else_null (integration_clauses c)))"
  "shown (display_contract_data c) ''Data Ownership'' = Some (StrCell (str_or (data_ownership c) ''DEALER''))"
  "shown (display_contract_data c) ''License Count'' =
     Some (StrCell (if license_count c \<noteq> - 1 then str_int (license_count c) else ''Unlimited''))"
  by (simp_all add: shown_def display_contract_data_def)

subsection \<open>Validation\<close>

lemma validate_defaults:
  assumes "SoftwareContract_validate v (JObj kv) = Some r"
  shows "default_field (str_of v) ''DEALER'' kv ''data_ownership'' = Some (data_ownership r)"
    and "default_field (int_of v) (- 1) kv ''license_count'' = Some (license_count r)"
  using assms by (auto simp: SoftwareContract_validate_def bind_eq_Some_conv)

lemma accepts_typed_strict: "accepts_typed strict_validators"
  by (simp add: accepts_typed_def strict_validators_def)

lemma validate_defaults_values:
  assumes "accepts_typed v" and "SoftwareContract_validate v (JObj kv) = Some r"
  shows "(map_of kv ''data_ownership'' = None \<longrightarrow> data_ownership r = ''DEALER'') \<and>
         (\<forall>s. map_of kv ''data_ownership'' = Some (JStr s) \<longrightarrow> data_ownership r = s) \<and>
         (map_of kv ''license_count'' = None \<longrightarrow> license_count r = - 1) \<and>
         (\<forall>n. map_of kv ''license_count'' = Some (JInt n) \<longrightarrow> license_count r = n)"
  using validate_defaults [OF assms(2)] assms(1)
  by (auto simp: default_field_def accepts_typed_def)

lemmas validate_unfold =
  SoftwareContract_validate_def required_field_def optional_field_def default_field_def
  strict_validators_def

lemma validate_required_only:
  "SoftwareContract_validate strict_validators (JObj ex_answer_required_only) = Some ex_contract_minimal"
  by (simp add: validate_unfold ex_answer_required_only_def ex_contract_minimal_def)

lemma validate_explicit:
  "SoftwareContract_validate strict_validators (JObj ex_answer_explicit) = Some ex_contract_minimal"
  by (simp add: validate_unfold ex_answer_explicit_def ex_answer_required_only_def
      ex_contract_minimal_def)

lemma validate_vendor:
  "SoftwareContract_validate strict_validators (JObj ex_answer_vendor) = Some ex_contract_vendor"
  by (simp add: validate_unfold ex_answer_vendor_def ex_answer_required_only_def
      ex_contract_vendor_def ex_contract_minimal_def)

lemma validate_empty_owner:
  "SoftwareContract_validate strict_validators (JObj ex_answer_empty_owner) = Some ex_contract_empty_owner"
  by (simp add: validate_unfold ex_answer_empty_owner_def ex_answer_required_only_def
      ex_contract_empty_owner_def ex_contract_minimal_def)

lemma format_2f_examples:
  "format_2f (Finite False 1500 0) = ''1500.00''"
  "format_2f (Finite False 7035467042882847 (- 47)) = ''49.99''"
  "format_2f (Finite False 0 0) = ''0.00''"
  "format_2f (Inf False) = ''inf''"
  by (simp_all add: hundredths_def round_half_even_def Let_def digit_char_def)

lemma is_digit_digit_char: "d < 10 \<Longrightarrow> is_digit (digit_char d)"
proof -
  assume "d < 10"
  then have "d \<in> {0,1,2,3,4,5,6,7,8,9}" by auto
  then show ?thesis by (auto simp: digit_char_def is_digit_def)
qed

lemma str_nat_digits: "list_all is_digit (str_nat n)"
proof (induction n rule: str_nat.induct)
  case (1 n)
  show ?case
  proof (cases "n < 10")
    case True
    then show ?thesis by (subst str_nat.simps) (simp add: is_digit_digit_char)
  next
    case False
    with "1" show ?thesis by (subst str_nat.simps) (simp add: is_digit_digit_char)
  qed
qed

lemma two_decimals_format_2f: "two_decimals (format_2f (Finite s m e))"
proof -
  let ?q = "hundredths m e"
  obtain c cs where ip: "str_nat (?q div 100) = c # cs"
    using str_nat_nonempty [of "?q div 100"] by (cases "str_nat (?q div 100)") auto
  have dg: "list_all is_digit (c # cs)" using str_nat_digits [of "?q div 100"] ip by simp
  then have nm: "c \<noteq> CHR ''-''" by (auto simp: is_digit_def)
  have d1: "is_digit (digit_char (?q mod 100 div 10))" by (rule is_digit_digit_char) simp
  have d2: "is_digit (digit_char (?q mod 10))" by (rule is_digit_digit_char) simp
  show ?thesis
    using ip dg nm d1 d2 by (cases s) (simp_all add: two_decimals_def Let_def)
qed

lemma not_two_decimals_inf: "\<not> two_decimals ''inf''"
  by (simp add: two_decimals_def)

declare format_2f.simps [simp del]

lemma posix_path_examples:
  "posix_path ''contracts/a.pdf'' = ''contracts/a.pdf''"
  "posix_path ''contracts/missing.pdf'' = ''contracts/missing.pdf''"
  "posix_path [] = ''.''"
  by (simp_all add: posix_path_def posix_root_def Let_def)

lemma ascii_length: "length (ascii s) = length s"
  by (simp add: ascii_def)

lemma ex_text_lengths:
  "length (ascii ''[]'') = 2" "length (ascii ''not json'') = 8"
  "length ex_partial_text = 116" "length ex_foreign_text = 77" "length ex_vin_missing_text = 96"
  by (simp_all add: ascii_length ex_partial_text_def ex_foreign_text_def ex_vin_missing_text_def)

lemma ex_json_load_simps:
  "ex_json_load (ascii ''[]'') = Inr (JArr [])"
  "ex_json_load (ascii ''not json'') = Inl (PyExc JSONDecodeError ''Expecting value: line 1 column 1 (char 0)'')"
  "ex_json_load ex_partial_text = Inr (JArr [JObj ex_good_items, JObj [], JObj ex_good_items])"
  "ex_json_load ex_foreign_text = Inr (JArr [JObj ex_foreign_items])"
  "ex_json_load ex_vin_missing_text = Inr (JArr [JObj ex_vin_missing_items])"
proof -
  have d: "(x = y) = False" if "length x \<noteq> length y" for x y :: bytes
    using that by auto
  show "ex_json_load (ascii ''[]'') = Inr (JArr [])"
    by (simp add: ex_json_load_def)
  show "ex_json_load (ascii ''not json'') = Inl (PyExc JSONDecodeError ''Expecting value: line 1 column 1 (char 0)'')"
    by (simp add: ex_json_load_def d ex_text_lengths)
  show "ex_json_load ex_partial_text = Inr (JArr [JObj ex_good_items, JObj [], JObj ex_good_items])"
    by (simp add: ex_json_load_def d ex_text_lengths)
  show "ex_json_load ex_foreign_text = Inr (JArr [JObj ex_foreign_items])"
    by (simp add: ex_json_load_def d ex_text_lengths)
  show "ex_json_load ex_vin_missing_text = Inr (JArr [JObj ex_vin_missing_items])"
    by (simp add: ex_json_load_def d ex_text_lengths)
qed

lemma ex_lib_simps:
  "json_load ex_lib = ex_json_load"
  "json_dumps ex_lib (JObj []) = ''{}''"
  "json_dumps ex_lib (JObj [(''invoice_id'', JStr ''INV-1'')]) = ex_json_dumps (JObj [(''invoice_id'', JStr ''INV-1'')])"
  by (simp_all add: ex_lib_def ex_json_dumps_def)

subsection \<open>extract_data_from_pdf\<close>

lemma extract_result:
  "extract_data_from_pdf lib self pdf_data w =
     (case client self (request_contents self (fst (create_few_shot_examples lib self w)) pdf_data) of
        Inl e \<Rightarrow> (Inl e, logger ERROR (''Error extracting contract data from PDF: '' @ str_exc e)
                         (snd (create_few_shot_examples lib self w)))
      | Inr response \<Rightarrow> (Inr (parsed response), snd (create_few_shot_examples lib self w)))"
  by (cases "create_few_shot_examples lib self w")
     (simp add: extract_data_from_pdf_def split: sum.splits)

lemma create_no_path:
  "few_shot_examples_path self = None \<Longrightarrow> create_few_shot_examples lib self w = ([], w)"
  by (simp add: create_few_shot_examples_def)

lemma ex_extractor_answering_simps:
  "client (ex_extractor_answering kv) = schema_client strict_validators (ex_provider kv)"
  "few_shot_examples_path (ex_extractor_answering kv) = None"
  by (simp_all add: ex_extractor_answering_def ContractExtractor_init_def)

lemma ex_extractor_down_simps:
  "client (ex_extractor_down path) contents = Inl (PyExc APIError ''503 UNAVAILABLE'')"
  "few_shot_examples_path (ex_extractor_down path) = path"
  by (simp_all add: ex_extractor_down_def ContractExtractor_init_def)

text \<open>
  When the provider's answer does not validate as a SoftwareContract, the response's
  \<^verbatim>\<open>parsed\<close> is \<^verbatim>\<open>None\<close> and extract_data_from_pdf returns it, although the function
  is annotated to return a SoftwareContract.
\<close>

lemma extract_unvalidated_answer:
  "fst (extract_data_from_pdf ex_lib (ex_extractor_answering []) ex_pdf ex_world) = Inr None"
  by (simp add: extract_result ex_extractor_answering_simps schema_client_def ex_provider_def
      SoftwareContract_validate_def required_field_def create_no_path)

subsection \<open>The loop of create_few_shot_examples\<close>

lemma examples_loop_append:
  "examples_loop lib fsys (pre @ rest) acc lg =
     (case examples_loop lib fsys pre acc lg of
        (None, a, l) \<Rightarrow> examples_loop lib fsys rest a l
      | (Some e, a, l) \<Rightarrow> (Some e, a, l))"
  by (induction pre arbitrary: acc lg) (auto split: sum.splits)

lemma examples_loop_log_irrelevant:
  "fst (examples_loop lib fsys xs acc lg) = fst (examples_loop lib fsys xs acc lg') \<and>
   fst (snd (examples_loop lib fsys xs acc lg)) = fst (snd (examples_loop lib fsys xs acc lg'))"
  by (induction xs arbitrary: acc lg lg') (auto split: sum.splits)


lemma examples_loop_skip:
  assumes "process_example lib fsys x = Inr ([], said)"
  shows "fst (examples_loop lib fsys (pre @ x # post) acc lg) = fst (examples_loop lib fsys (pre @ post) acc lg)"
    and "fst (snd (examples_loop lib fsys (pre @ x # post) acc lg))
           = fst (snd (examples_loop lib fsys (pre @ post) acc lg))"
proof -
  obtain ex a l where pre: "examples_loop lib fsys pre acc lg = (ex, a, l)"
    by (cases "examples_loop lib fsys pre acc lg")
  show "fst (examples_loop lib fsys (pre @ x # post) acc lg) = fst (examples_loop lib fsys (pre @ post) acc lg)"
    using assms pre examples_loop_log_irrelevant [of lib fsys post a "l @ said" l]
    by (cases ex) (simp_all add: examples_loop_append)
  show "fst (snd (examples_loop lib fsys (pre @ x # post) acc lg))
           = fst (snd (examples_loop lib fsys (pre @ post) acc lg))"
    using assms pre examples_loop_log_irrelevant [of lib fsys post a "l @ said" l]
    by (cases ex) (simp_all add: examples_loop_append)
qed


lemma with_manifest_simps [simp]:
  "json_load (with_manifest lib m) text = Inr m"
  "json_dumps (with_manifest lib m) = json_dumps lib"
  by (simp_all add: with_manifest_def)

lemma process_example_with_manifest [simp]:
  "process_example (with_manifest lib m) fsys x = process_example lib fsys x"
  by (auto simp: process_example_def split: sum.splits bool.splits)

lemma examples_loop_with_manifest [simp]:
  "examples_loop (with_manifest lib m) fsys xs acc lg = examples_loop lib fsys xs acc lg"
  by (induction xs arbitrary: acc lg) (auto split: sum.splits)

lemma try_load_with_manifest:
  "try_load_examples (with_manifest lib (JArr xs)) path w =
     (case read_file (fs w) path of
        Inl e \<Rightarrow> (Some e, [], logs w)
      | Inr text \<Rightarrow> examples_loop lib (fs w) xs [] (logs w))"
  by (simp add: try_load_examples_def split: sum.splits)

lemma create_contents:
  "fst (create_few_shot_examples lib self w) =
     (case few_shot_examples_path self of
        None \<Rightarrow> []
      | Some path \<Rightarrow> if path = [] \<or> fs w path = None then []
                     else fst (snd (try_load_examples lib path w)))"
  by (auto simp: create_few_shot_examples_def split: option.splits prod.splits)


lemma process_example_vin:
  assumes "map_of kv ''expected_output'' = Some (JObj out)" and "''vehicle_vin'' \<in> fst ` set out"
  shows "process_example lib fsys (JObj kv) =
           Inr ([], [(INFO, ''Skipping vehicle title example - not applicable for software contracts'')])"
  using assms by (simp add: process_example_def)

lemma process_example_missing:
  assumes "py_get (JObj kv) ''expected_output'' (JObj []) = Inr expected"
    and "py_in ''vehicle_vin'' expected = Inr False"
    and "map_of kv ''pdf_path'' = Some (JStr p)" and "fsys (posix_path p) = None"
  shows "process_example lib fsys (JObj kv) = Inr ([], [(WARNING, ''Example PDF file not found: '' @ p)])"
  using assms by (simp add: process_example_def)

subsection \<open>The temporary file of extract_data_from_uploaded_file\<close>

lemma process_example_fs_update:
  assumes "tmp \<notin> set (entry_path x)"
  shows "process_example lib (fsys(tmp \<mapsto> n)) x = process_example lib fsys x"
proof (cases x)
  case (JObj kv)
  show ?thesis
  proof (cases "map_of kv ''pdf_path''")
    case None
    with JObj show ?thesis by (simp add: process_example_def split: sum.splits bool.splits)
  next
    case (Some pv)
    show ?thesis
    proof (cases pv)
      case (JStr p)
      with Some JObj assms have "posix_path p \<noteq> tmp" by auto
      with Some JObj JStr show ?thesis
        by (auto simp: process_example_def read_file_def split: sum.splits bool.splits)
    qed (use Some JObj in \<open>simp_all add: process_example_def split: sum.splits bool.splits\<close>)
  qed
qed (simp_all add: process_example_def)

lemma examples_loop_fs_update:
  assumes "tmp \<notin> set (concat (map entry_path xs))"
  shows "examples_loop lib (fsys(tmp \<mapsto> n)) xs acc lg = examples_loop lib fsys xs acc lg"
  using assms
  by (induction xs arbitrary: acc lg) (auto simp: process_example_fs_update split: sum.splits)

lemma try_load_fs_update:
  assumes "path \<noteq> tmp" and "few_shot_examples_path self = Some path"
    and "tmp \<notin> set (manifest_paths lib self w)"
  shows "try_load_examples lib path (w\<lparr>fs := (fs w)(tmp \<mapsto> n)\<rparr>) = try_load_examples lib path w"
  using assms
  by (auto simp: try_load_examples_def manifest_paths_def read_file_def examples_loop_fs_update
      split: sum.splits option.splits node.splits)

lemma create_fs_update:
  assumes "few_shot_examples_path self \<noteq> Some tmp" and "tmp \<notin> set (manifest_paths lib self w)"
  shows "create_few_shot_examples lib self (w\<lparr>fs := (fs w)(tmp \<mapsto> n)\<rparr>) =
           (fst (create_few_shot_examples lib self w),
            (snd (create_few_shot_examples lib self w))\<lparr>fs := (fs w)(tmp \<mapsto> n)\<rparr>)"
proof (cases "few_shot_examples_path self")
  case None
  then show ?thesis by (simp add: create_few_shot_examples_def)
next
  case (Some path)
  with assms(1) have ne: "path \<noteq> tmp" by auto
  show ?thesis
    using Some ne try_load_fs_update [OF ne Some assms(2), of n]
    by (auto simp: create_few_shot_examples_def split: option.splits prod.splits)
qed

lemma create_fs [simp]: "fs (snd (create_few_shot_examples lib self w)) = fs w"
  by (auto simp: create_few_shot_examples_def split: option.splits prod.splits)

lemma extract_fs [simp]: "fs (snd (extract_data_from_pdf lib self pdf_data w)) = fs w"
  by (simp add: extract_result logger_def split: sum.splits)

lemma extract_fs_update:
  assumes "few_shot_examples_path self \<noteq> Some tmp" and "tmp \<notin> set (manifest_paths lib self w)"
  shows "extract_data_from_pdf lib self pdf_data (w\<lparr>fs := (fs w)(tmp \<mapsto> n)\<rparr>) =
           (fst (extract_data_from_pdf lib self pdf_data w),
            (snd (extract_data_from_pdf lib self pdf_data w))\<lparr>fs := (fs w)(tmp \<mapsto> n)\<rparr>)"
  by (simp add: extract_result create_fs_update [OF assms] logger_def split: sum.splits)

text \<open>
  When the content was staged, the temporary file is gone after the call, whether the
  extraction returned or raised.
\<close>

lemma temp_file_removed:
  assumes "\<not> closed uploaded"
  shows "fs (snd (extract_data_from_uploaded_file lib self tmp uploaded w)) tmp = None"
proof -
  let ?w2 = "w\<lparr>fs := (fs w)(tmp \<mapsto> File (buffer uploaded))\<rparr>"
  obtain res w3 where e: "extract_data_from_pdf lib self (buffer uploaded) ?w2 = (res, w3)"
    by (cases "extract_data_from_pdf lib self (buffer uploaded) ?w2")
  have "fs w3 = fs ?w2"
    using extract_fs [of lib self "buffer uploaded" ?w2] e by simp
  then show ?thesis
    using assms e
    by (simp add: extract_data_from_uploaded_file_def getvalue_def os_unlink_def
        extract_data_from_file_def read_file_def)
qed

lemma ex_extractor_full_simps:
  "client ex_extractor_full = schema_client strict_validators (ex_provider ex_answer_required_only)"
  "few_shot_examples_path ex_extractor_full = Some ''examples.json''"
  by (simp_all add: ex_extractor_full_def ContractExtractor_init_def)

lemmas few_shot_unfold =
  create_few_shot_examples_def try_load_examples_def read_file_def process_example_def
  ex_world_def ex_lib_simps ex_json_load_simps posix_path_examples
  ex_good_items_def ex_vin_items_def ex_foreign_items_def
  ex_missing_items_def ex_vin_missing_items_def ex_good_triple_def ex_extractor_down_simps

section \<open>The claims\<close>

subsection \<open>C3: entries of another extraction schema\<close>

lemma examples_loop_extends:
  "\<exists>more. fst (snd (examples_loop lib fsys xs acc lg)) = acc @ more"
proof (induction xs arbitrary: acc lg)
  case Nil
  show ?case by simp
next
  case (Cons x xs)
  show ?case
  proof (cases "process_example lib fsys x")
    case (Inl e)
    then show ?thesis by simp
  next
    case (Inr r)
    obtain added said where r: "r = (added, said)" by (cases r)
    obtain more where "fst (snd (examples_loop lib fsys xs (acc @ added) (lg @ said))) = (acc @ added) @ more"
      using Cons.IH by blast
    with Inr r show ?thesis by simp
  qed
qed

lemma process_example_kept:
  assumes "map_of kv ''expected_output'' = Some (JObj out)" and "''vehicle_vin'' \<notin> fst ` set out"
    and "map_of kv ''pdf_path'' = Some (JStr p)" and "fsys (posix_path p) = Some (File data)"
  shows "process_example lib fsys (JObj kv) =
           Inr ([Text ''Please extract the contract information from the following PDF'',
                 Part data ''application/pdf'', Text (json_dumps lib (JObj out))], [])"
  using assms by (simp add: process_example_def read_file_def)

text \<open>
  C3, as amended. The guard of create_few_shot_examples looks for the one key
  \<^verbatim>\<open>vehicle_vin\<close>. A manifest entry whose expected_output is an object with that key is
  excluded: the returned sequence is the one returned for the manifest without the entry,
  and the entry raises nothing (the raise that ends the loop, if any, is the same with and
  without it). No other key is looked for: an entry whose expected_output is an object
  without the key \<^verbatim>\<open>vehicle_vin\<close>, whatever other keys it has, and whose PDF is a file is
  kept, its three items being in the returned sequence, when the loop reaches it.
\<close>

theorem vehicle_vin_entry_excluded:
  "(map_of kv ''expected_output'' = Some (JObj out) \<and> ''vehicle_vin'' \<in> fst ` set out \<longrightarrow>
      fst (create_few_shot_examples (with_manifest lib (JArr (pre @ JObj kv # post))) self w)
        = fst (create_few_shot_examples (with_manifest lib (JArr (pre @ post))) self w)
      \<and> fst (try_load_examples (with_manifest lib (JArr (pre @ JObj kv # post))) path w)
        = fst (try_load_examples (with_manifest lib (JArr (pre @ post))) path w))
   \<and> (map_of kv ''expected_output'' = Some (JObj out) \<and> ''vehicle_vin'' \<notin> fst ` set out
        \<and> map_of kv ''pdf_path'' = Some (JStr p) \<and> fs w (posix_path p) = Some (File data)
        \<and> few_shot_examples_path self = Some path \<and> path \<noteq> []
        \<and> read_file (fs w) path = Inr content
        \<and> fst (examples_loop lib (fs w) pre [] (logs w)) = None \<longrightarrow>
      (\<exists>before after.
         fst (create_few_shot_examples (with_manifest lib (JArr (pre @ JObj kv # post))) self w)
           = before
             @ [Text ''Please extract the contract information from the following PDF'',
                Part data ''application/pdf'', Text (json_dumps lib (JObj out))]
             @ after))"
proof (intro conjI impI)
  assume a: "map_of kv ''expected_output'' = Some (JObj out) \<and> ''vehicle_vin'' \<in> fst ` set out"
  then have pe: "process_example lib (fs w) (JObj kv) =
      Inr ([], [(INFO, ''Skipping vehicle title example - not applicable for software contracts'')])"
    by (simp add: process_example_vin)
  show "fst (create_few_shot_examples (with_manifest lib (JArr (pre @ JObj kv # post))) self w)
        = fst (create_few_shot_examples (with_manifest lib (JArr (pre @ post))) self w)"
    using examples_loop_skip [OF pe, of pre post "[]" "logs w"]
    by (simp add: create_contents try_load_with_manifest split: option.splits sum.splits)
  show "fst (try_load_examples (with_manifest lib (JArr (pre @ JObj kv # post))) path w)
        = fst (try_load_examples (with_manifest lib (JArr (pre @ post))) path w)"
    using examples_loop_skip [OF pe, of pre post "[]" "logs w"]
    by (simp add: try_load_with_manifest split: sum.splits)
next
  let ?triple = "[Text ''Please extract the contract information from the following PDF'',
                Part data ''application/pdf'', Text (json_dumps lib (JObj out))]"
  assume b: "map_of kv ''expected_output'' = Some (JObj out) \<and> ''vehicle_vin'' \<notin> fst ` set out
        \<and> map_of kv ''pdf_path'' = Some (JStr p) \<and> fs w (posix_path p) = Some (File data)
        \<and> few_shot_examples_path self = Some path \<and> path \<noteq> []
        \<and> read_file (fs w) path = Inr content
        \<and> fst (examples_loop lib (fs w) pre [] (logs w)) = None"
  then have pe: "process_example lib (fs w) (JObj kv) = Inr (?triple, [])"
    by (simp add: process_example_kept)
  from b obtain a l where pre: "examples_loop lib (fs w) pre [] (logs w) = (None, a, l)"
    by (cases "examples_loop lib (fs w) pre [] (logs w)") auto
  obtain more where m: "fst (snd (examples_loop lib (fs w) post (a @ ?triple) l)) = (a @ ?triple) @ more"
    using examples_loop_extends by blast
  from b have ex: "fs w path \<noteq> None" by (auto simp: read_file_def split: option.splits)
  have "fst (create_few_shot_examples (with_manifest lib (JArr (pre @ JObj kv # post))) self w)
          = a @ ?triple @ more"
    using b ex pre pe m by (simp add: create_contents try_load_with_manifest examples_loop_append)
  then show "\<exists>before after.
         fst (create_few_shot_examples (with_manifest lib (JArr (pre @ JObj kv # post))) self w)
           = before @ ?triple @ after"
    by blast
qed

theorem vehicle_vin_entry_excluded_witness:
  "map_of ex_vin_items ''expected_output'' = Some (JObj [(''vehicle_vin'', JStr ''1HGCM82633A004352'')])
   \<and> ''vehicle_vin'' \<in> fst ` set [(''vehicle_vin'', JStr ''1HGCM82633A004352'' :: pyfloat json)]
   \<and> fst (create_few_shot_examples
            (with_manifest ex_lib (JArr ([JObj ex_good_items] @ JObj ex_vin_items # [JObj ex_good_items])))
            (ex_extractor_down (Some ''examples.json'')) ex_world)
       = fst (create_few_shot_examples
            (with_manifest ex_lib (JArr ([JObj ex_good_items] @ [JObj ex_good_items])))
            (ex_extractor_down (Some ''examples.json'')) ex_world)
   \<and> fst (create_few_shot_examples
            (with_manifest ex_lib (JArr ([JObj ex_good_items] @ [JObj ex_good_items])))
            (ex_extractor_down (Some ''examples.json'')) ex_world)
       = ex_good_triple @ ex_good_triple
   \<and> map_of ex_foreign_items ''expected_output'' = Some (JObj [(''invoice_id'', JStr ''INV-1'')])
   \<and> ''vehicle_vin'' \<notin> fst ` set [(''invoice_id'', JStr ''INV-1'' :: pyfloat json)]
   \<and> map_of ex_foreign_items ''pdf_path'' = Some (JStr ''contracts/a.pdf'')
   \<and> fs ex_world (posix_path ''contracts/a.pdf'') = Some (File ex_pdf)
   \<and> read_file (fs ex_world) ''examples.json'' = Inr (ascii ''[]'')
   \<and> fst (examples_loop ex_lib (fs ex_world) [JObj ex_good_items] [] (logs ex_world)) = None
   \<and> fst (create_few_shot_examples
            (with_manifest ex_lib (JArr ([JObj ex_good_items] @ JObj ex_foreign_items # [JObj ex_good_items])))
            (ex_extractor_down (Some ''examples.json'')) ex_world)
       = ex_good_triple @ ex_foreign_triple @ ex_good_triple"
proof -
  let ?self = "ex_extractor_down (Some ''examples.json'') :: pyfloat ContractExtractor"
  have h1: "map_of ex_vin_items ''expected_output'' = Some (JObj [(''vehicle_vin'', JStr ''1HGCM82633A004352'')])"
    by (simp add: ex_vin_items_def)
  have h2: "''vehicle_vin'' \<in> fst ` set [(''vehicle_vin'', JStr ''1HGCM82633A004352'' :: pyfloat json)]"
    by simp
  have ev: "fst (create_few_shot_examples
            (with_manifest ex_lib (JArr ([JObj ex_good_items] @ [JObj ex_good_items])))
            ?self ex_world) = ex_good_triple @ ex_good_triple"
    by (simp add: few_shot_unfold)
  have g1: "map_of ex_foreign_items ''expected_output'' = Some (JObj [(''invoice_id'', JStr ''INV-1'')])"
    "map_of ex_foreign_items ''pdf_path'' = Some (JStr ''contracts/a.pdf'')"
    by (simp_all add: ex_foreign_items_def)
  have g2: "''vehicle_vin'' \<notin> fst ` set [(''invoice_id'', JStr ''INV-1'' :: pyfloat json)]"
    by simp
  have g3: "fs ex_world (posix_path ''contracts/a.pdf'') = Some (File ex_pdf)"
    by (simp add: posix_path_examples ex_world_def)
  have g4: "few_shot_examples_path ?self = Some ''examples.json''" "''examples.json'' \<noteq> []"
    by (simp_all add: ex_extractor_down_simps)
  have g5: "read_file (fs ex_world) ''examples.json'' = Inr (ascii ''[]'')"
    by (simp add: read_file_def ex_world_def)
  have g6: "fst (examples_loop ex_lib (fs ex_world) [JObj ex_good_items] [] (logs ex_world)) = None"
    by (simp add: few_shot_unfold)
  have ev2: "fst (create_few_shot_examples
            (with_manifest ex_lib (JArr ([JObj ex_good_items] @ JObj ex_foreign_items # [JObj ex_good_items])))
            ?self ex_world) = ex_good_triple @ ex_foreign_triple @ ex_good_triple"
    by (simp add: few_shot_unfold ex_foreign_triple_def ex_json_dumps_def)
  note t1 = vehicle_vin_entry_excluded [where kv = ex_vin_items
      and out = "[(''vehicle_vin'', JStr ''1HGCM82633A004352'')]" and lib = ex_lib
      and pre = "[JObj ex_good_items]" and post = "[JObj ex_good_items]" and self = ?self
      and w = ex_world and path = "''examples.json''"]
  note t2 = vehicle_vin_entry_excluded [where kv = ex_foreign_items
      and out = "[(''invoice_id'', JStr ''INV-1'')]" and lib = ex_lib
      and pre = "[JObj ex_good_items]" and post = "[JObj ex_good_items]" and self = ?self
      and w = ex_world and path = "''examples.json''" and p = "''contracts/a.pdf''"
      and data = ex_pdf and content = "ascii ''[]''"]
  from t1 h1 h2 have e1: "fst (create_few_shot_examples
            (with_manifest ex_lib (JArr ([JObj ex_good_items] @ JObj ex_vin_items # [JObj ex_good_items])))
            ?self ex_world)
       = fst (create_few_shot_examples
            (with_manifest ex_lib (JArr ([JObj ex_good_items] @ [JObj ex_good_items])))
            ?self ex_world)"
    by blast
  from t2 g1 g2 g3 g4 g5 g6 have "\<exists>before after. fst (create_few_shot_examples
            (with_manifest ex_lib (JArr ([JObj ex_good_items] @ JObj ex_foreign_items # [JObj ex_good_items])))
            ?self ex_world)
       = before @ [Text ''Please extract the contract information from the following PDF'',
                Part ex_pdf ''application/pdf'',
                Text (json_dumps ex_lib (JObj [(''invoice_id'', JStr ''INV-1'')]))] @ after"
    by blast
  with e1 h1 h2 ev g1 g2 g3 g5 g6 ev2 show ?thesis by simp
qed

text \<open>
  A manifest with one entry whose expected_output has the foreign key \<^verbatim>\<open>invoice_id\<close> and
  whose PDF exists: the entry is not excluded, its three items are returned.
\<close>

theorem vehicle_vin_entry_excluded_counterexample:
  "read_file (fs ex_world) ''foreign.json'' = Inr ex_foreign_text
   \<and> json_load ex_lib ex_foreign_text = Inr (JArr [JObj ex_foreign_items])
   \<and> map_of ex_foreign_items ''expected_output'' = Some (JObj [(''invoice_id'', JStr ''INV-1'')])
   \<and> create_few_shot_examples ex_lib (ex_extractor_down (Some ''foreign.json'')) ex_world
     = (ex_foreign_triple, ex_world)"
  by (simp add: few_shot_unfold ex_foreign_triple_def ex_json_dumps_def)

subsection \<open>C4: loading the examples never raises\<close>

text \<open>
  C4, as amended. create_few_shot_examples never raises. It returns the empty sequence when
  no manifest path is configured (or the path is the empty string) or the manifest file
  does not exist. A failure while the manifest is opened or parsed as JSON (syntactically
  invalid JSON included) is caught and the result is the empty sequence. A failure while the
  entries are processed is caught as well, and the result is then the sequence of the
  entries processed before it, not the empty one. Every caught failure is logged as one
  warning.
\<close>

theorem create_few_shot_examples_absorbs:
  "(few_shot_examples_path self = None \<longrightarrow> create_few_shot_examples lib self w = ([], w)) \<and>
   (few_shot_examples_path self = Some [] \<longrightarrow> create_few_shot_examples lib self w = ([], w)) \<and>
   (\<forall>path. few_shot_examples_path self = Some path \<and> fs w path = None \<longrightarrow>
      create_few_shot_examples lib self w = ([], w)) \<and>
   (\<forall>path e. few_shot_examples_path self = Some path \<and> path \<noteq> [] \<and> fs w path \<noteq> None
        \<and> read_file (fs w) path = Inl e \<longrightarrow>
      create_few_shot_examples lib self w
        = ([], logger WARNING (''Could not load few-shot examples: '' @ str_exc e) w)) \<and>
   (\<forall>path content e. few_shot_examples_path self = Some path \<and> path \<noteq> []
        \<and> read_file (fs w) path = Inr content \<and> json_load lib content = Inl e \<longrightarrow>
      create_few_shot_examples lib self w
        = ([], logger WARNING (''Could not load few-shot examples: '' @ str_exc e) w)) \<and>
   (\<forall>path e acc lg. few_shot_examples_path self = Some path \<and> path \<noteq> [] \<and> fs w path \<noteq> None
        \<and> try_load_examples lib path w = (Some e, acc, lg) \<longrightarrow>
      create_few_shot_examples lib self w
        = (acc, w\<lparr>logs := lg @ [(WARNING, ''Could not load few-shot examples: '' @ str_exc e)]\<rparr>)) \<and>
   (\<forall>path content pre bad post e. few_shot_examples_path self = Some path \<and> path \<noteq> []
        \<and> read_file (fs w) path = Inr content
        \<and> json_load lib content = Inr (JArr (pre @ bad # post))
        \<and> fst (examples_loop lib (fs w) pre [] (logs w)) = None
        \<and> process_example lib (fs w) bad = Inl e \<longrightarrow>
      create_few_shot_examples lib self w
        = (fst (snd (examples_loop lib (fs w) pre [] (logs w))),
           w\<lparr>logs := snd (snd (examples_loop lib (fs w) pre [] (logs w)))
                       @ [(WARNING, ''Could not load few-shot examples: '' @ str_exc e)]\<rparr>))"
proof -
  have last: "create_few_shot_examples lib self w
        = (fst (snd (examples_loop lib (fs w) pre [] (logs w))),
           w\<lparr>logs := snd (snd (examples_loop lib (fs w) pre [] (logs w)))
                       @ [(WARNING, ''Could not load few-shot examples: '' @ str_exc e)]\<rparr>)"
    if sp: "few_shot_examples_path self = Some path" and ne: "path \<noteq> []"
      and rd: "read_file (fs w) path = Inr content"
      and js: "json_load lib content = Inr (JArr (pre @ bad # post))"
      and ok: "fst (examples_loop lib (fs w) pre [] (logs w)) = None"
      and bad: "process_example lib (fs w) bad = Inl e"
    for path content pre bad post e
  proof -
    obtain a l where pre: "examples_loop lib (fs w) pre [] (logs w) = (None, a, l)"
      using ok by (cases "examples_loop lib (fs w) pre [] (logs w)") auto
    from rd obtain nd where nd: "fs w path = Some nd"
      by (auto simp: read_file_def split: option.splits)
    have t: "try_load_examples lib path w = (Some e, a, l)"
      using rd js pre bad by (simp add: try_load_examples_def examples_loop_append)
    show ?thesis
      by (simp add: create_few_shot_examples_def sp ne nd t pre)
  qed
  have seventh: "\<forall>path content pre bad post e. few_shot_examples_path self = Some path \<and> path \<noteq> []
        \<and> read_file (fs w) path = Inr content
        \<and> json_load lib content = Inr (JArr (pre @ bad # post))
        \<and> fst (examples_loop lib (fs w) pre [] (logs w)) = None
        \<and> process_example lib (fs w) bad = Inl e \<longrightarrow>
      create_few_shot_examples lib self w
        = (fst (snd (examples_loop lib (fs w) pre [] (logs w))),
           w\<lparr>logs := snd (snd (examples_loop lib (fs w) pre [] (logs w)))
                       @ [(WARNING, ''Could not load few-shot examples: '' @ str_exc e)]\<rparr>)"
    by (intro allI impI, elim conjE, rule last)
  have first: "(few_shot_examples_path self = None \<longrightarrow> create_few_shot_examples lib self w = ([], w)) \<and>
   (few_shot_examples_path self = Some [] \<longrightarrow> create_few_shot_examples lib self w = ([], w)) \<and>
   (\<forall>path. few_shot_examples_path self = Some path \<and> fs w path = None \<longrightarrow>
      create_few_shot_examples lib self w = ([], w)) \<and>
   (\<forall>path e. few_shot_examples_path self = Some path \<and> path \<noteq> [] \<and> fs w path \<noteq> None
        \<and> read_file (fs w) path = Inl e \<longrightarrow>
      create_few_shot_examples lib self w
        = ([], logger WARNING (''Could not load few-shot examples: '' @ str_exc e) w)) \<and>
   (\<forall>path content e. few_shot_examples_path self = Some path \<and> path \<noteq> []
        \<and> read_file (fs w) path = Inr content \<and> json_load lib content = Inl e \<longrightarrow>
      create_few_shot_examples lib self w
        = ([], logger WARNING (''Could not load few-shot examples: '' @ str_exc e) w)) \<and>
   (\<forall>path e acc lg. few_shot_examples_path self = Some path \<and> path \<noteq> [] \<and> fs w path \<noteq> None
        \<and> try_load_examples lib path w = (Some e, acc, lg) \<longrightarrow>
      create_few_shot_examples lib self w
        = (acc, w\<lparr>logs := lg @ [(WARNING, ''Could not load few-shot examples: '' @ str_exc e)]\<rparr>))"
    by (auto simp: create_few_shot_examples_def try_load_examples_def logger_def read_file_def
        split: option.splits node.splits)
  from first seventh show ?thesis
    by (elim conjE, intro conjI) assumption+
qed

theorem create_few_shot_examples_absorbs_witness:
  "create_few_shot_examples ex_lib (ex_extractor_down None) ex_world = ([], ex_world)
   \<and> create_few_shot_examples ex_lib (ex_extractor_down (Some [])) ex_world = ([], ex_world)
   \<and> fs ex_world ''nowhere.json'' = None
   \<and> create_few_shot_examples ex_lib (ex_extractor_down (Some ''nowhere.json'')) ex_world = ([], ex_world)
   \<and> read_file (fs ex_world) ''examples_dir''
       = Inl (PyExc IsADirectoryError (''[Errno 21] Is a directory: '' @ py_repr ''examples_dir''))
   \<and> create_few_shot_examples ex_lib (ex_extractor_down (Some ''examples_dir'')) ex_world
       = ([], ex_world\<lparr>logs := [(WARNING,
            ''Could not load few-shot examples: [Errno 21] Is a directory: '' @ py_repr ''examples_dir'')]\<rparr>)
   \<and> read_file (fs ex_world) ''broken.json'' = Inr (ascii ''not json'')
   \<and> json_load ex_lib (ascii ''not json'')
       = Inl (PyExc JSONDecodeError ''Expecting value: line 1 column 1 (char 0)'')
   \<and> create_few_shot_examples ex_lib (ex_extractor_down (Some ''broken.json'')) ex_world
       = ([], ex_world\<lparr>logs := [(WARNING,
            ''Could not load few-shot examples: Expecting value: line 1 column 1 (char 0)'')]\<rparr>)
   \<and> read_file (fs ex_world) ''partial.json'' = Inr ex_partial_text
   \<and> json_load ex_lib ex_partial_text = Inr (JArr ([JObj ex_good_items] @ JObj [] # [JObj ex_good_items]))
   \<and> process_example ex_lib (fs ex_world) (JObj []) = Inl (PyExc KeyError (py_repr ''pdf_path''))
   \<and> examples_loop ex_lib (fs ex_world) [JObj ex_good_items] [] (logs ex_world)
       = (None, ex_good_triple, [])
   \<and> create_few_shot_examples ex_lib (ex_extractor_down (Some ''partial.json'')) ex_world
       = (ex_good_triple,
          ex_world\<lparr>logs := [(WARNING, ''Could not load few-shot examples: '' @ py_repr ''pdf_path'')]\<rparr>)"
proof -
  have sp: "few_shot_examples_path (ex_extractor_down path :: pyfloat ContractExtractor) = path" for path
    by (simp add: ex_extractor_down_simps)
  have ne: "''examples_dir'' \<noteq> []" "''broken.json'' \<noteq> []" "''partial.json'' \<noteq> []"
    by simp_all
  have f1: "fs ex_world ''nowhere.json'' = None" by (simp add: ex_world_def)
  have f2: "fs ex_world ''examples_dir'' \<noteq> None" by (simp add: ex_world_def)
  have f5: "read_file (fs ex_world) ''examples_dir''
       = Inl (PyExc IsADirectoryError (''[Errno 21] Is a directory: '' @ py_repr ''examples_dir''))"
    by (simp add: ex_world_def read_file_def)
  have f6: "read_file (fs ex_world) ''broken.json'' = Inr (ascii ''not json'')"
    by (simp add: ex_world_def read_file_def)
  have f7: "read_file (fs ex_world) ''partial.json'' = Inr ex_partial_text"
    by (simp add: ex_world_def read_file_def)
  have j1: "json_load ex_lib (ascii ''not json'')
       = Inl (PyExc JSONDecodeError ''Expecting value: line 1 column 1 (char 0)'')"
    by (simp add: ex_lib_simps ex_json_load_simps)
  have j2: "json_load ex_lib ex_partial_text = Inr (JArr ([JObj ex_good_items] @ JObj [] # [JObj ex_good_items]))"
    by (simp add: ex_lib_simps ex_json_load_simps)
  have pb: "process_example ex_lib (fs ex_world) (JObj []) = Inl (PyExc KeyError (py_repr ''pdf_path''))"
    by (simp add: process_example_def)
  have pg: "examples_loop ex_lib (fs ex_world) [JObj ex_good_items] [] (logs ex_world)
              = (None, ex_good_triple, [])"
    by (simp add: few_shot_unfold)
  have pg': "fst (examples_loop ex_lib (fs ex_world) [JObj ex_good_items] [] (logs ex_world)) = None"
    unfolding pg by simp
  have l: "logs ex_world = []" by (simp add: ex_world_def)
  note th = create_few_shot_examples_absorbs [where lib = ex_lib and w = ex_world]
  note th1 = th [THEN conjunct1]
  note th2 = th [THEN conjunct2, THEN conjunct1]
  note th3 = th [THEN conjunct2, THEN conjunct2, THEN conjunct1]
  note th4 = th [THEN conjunct2, THEN conjunct2, THEN conjunct2, THEN conjunct1]
  note th5 = th [THEN conjunct2, THEN conjunct2, THEN conjunct2, THEN conjunct2, THEN conjunct1]
  note th7 = th [THEN conjunct2, THEN conjunct2, THEN conjunct2, THEN conjunct2, THEN conjunct2,
      THEN conjunct2]
  have c1: "create_few_shot_examples ex_lib (ex_extractor_down None) ex_world = ([], ex_world)"
    by (rule th1 [rule_format]) (rule sp)
  have c2: "create_few_shot_examples ex_lib (ex_extractor_down (Some [])) ex_world = ([], ex_world)"
    by (rule th2 [rule_format]) (rule sp)
  have c3: "create_few_shot_examples ex_lib (ex_extractor_down (Some ''nowhere.json'')) ex_world = ([], ex_world)"
    by (rule th3 [rule_format]) (intro conjI, rule sp, rule f1)
  have c4: "create_few_shot_examples ex_lib (ex_extractor_down (Some ''examples_dir'')) ex_world
       = ([], logger WARNING (''Could not load few-shot examples: ''
            @ str_exc (PyExc IsADirectoryError (''[Errno 21] Is a directory: '' @ py_repr ''examples_dir''))) ex_world)"
    by (rule th4 [rule_format]) (intro conjI, rule sp, rule ne, rule f2, rule f5)
  have c5: "create_few_shot_examples ex_lib (ex_extractor_down (Some ''broken.json'')) ex_world
       = ([], logger WARNING (''Could not load few-shot examples: ''
            @ str_exc (PyExc JSONDecodeError ''Expecting value: line 1 column 1 (char 0)'')) ex_world)"
    by (rule th5 [rule_format]) (intro conjI, rule sp, rule ne, rule f6, rule j1)
  have c6: "create_few_shot_examples ex_lib (ex_extractor_down (Some ''partial.json'')) ex_world
       = (fst (snd (examples_loop ex_lib (fs ex_world) [JObj ex_good_items] [] (logs ex_world))),
          ex_world\<lparr>logs := snd (snd (examples_loop ex_lib (fs ex_world) [JObj ex_good_items] [] (logs ex_world)))
             @ [(WARNING, ''Could not load few-shot examples: '' @ str_exc (PyExc KeyError (py_repr ''pdf_path'')))]\<rparr>)"
    by (rule th7 [rule_format]) (intro conjI, rule sp, rule ne, rule f7, rule j2, rule pg', rule pb)
  have c4': "create_few_shot_examples ex_lib (ex_extractor_down (Some ''examples_dir'')) ex_world
       = ([], ex_world\<lparr>logs := [(WARNING,
            ''Could not load few-shot examples: [Errno 21] Is a directory: '' @ py_repr ''examples_dir'')]\<rparr>)"
    unfolding c4 by (simp add: logger_def l)
  have c5': "create_few_shot_examples ex_lib (ex_extractor_down (Some ''broken.json'')) ex_world
       = ([], ex_world\<lparr>logs := [(WARNING,
            ''Could not load few-shot examples: Expecting value: line 1 column 1 (char 0)'')]\<rparr>)"
    unfolding c5 by (simp add: logger_def l)
  have c6': "create_few_shot_examples ex_lib (ex_extractor_down (Some ''partial.json'')) ex_world
       = (ex_good_triple,
          ex_world\<lparr>logs := [(WARNING, ''Could not load few-shot examples: '' @ py_repr ''pdf_path'')]\<rparr>)"
    unfolding c6 pg by simp
  show ?thesis
    by (intro conjI) (rule c1 c2 f1 c3 f5 c4' f6 j1 c5' f7 j2 pb pg c6')+
qed

text \<open>
  A manifest whose second entry has no \<^verbatim>\<open>pdf_path\<close>: the KeyError is caught and the three
  items of the first entry are returned, not the empty sequence.
\<close>

theorem create_few_shot_examples_absorbs_counterexample:
  "read_file (fs ex_world) ''partial.json'' = Inr ex_partial_text
   \<and> json_load ex_lib ex_partial_text = Inr (JArr [JObj ex_good_items, JObj [], JObj ex_good_items])
   \<and> create_few_shot_examples ex_lib (ex_extractor_down (Some ''partial.json'')) ex_world
       = ([Text ''Please extract the contract information from the following PDF'',
           Part ex_pdf ''application/pdf'', Text ''{}''],
          ex_world\<lparr>logs := [(WARNING, ''Could not load few-shot examples: '' @ py_repr ''pdf_path'')]\<rparr>)"
  by (simp add: few_shot_unfold)

subsection \<open>C1: how extract_data_from_pdf fails\<close>

text \<open>
  C1, as amended. When the model call raises, extract_data_from_pdf logs the error and
  raises that same exception again, unwrapped: there is no wrapping exception class. The
  function has no check of its own on \<^verbatim>\<open>pdf_data\<close>: bytes of any length, zero
  included, are sent to the provider, and a record that the provider's response carries is
  returned. The function builds no record itself: a record it returns is the
  \<^verbatim>\<open>parsed\<close> value of the provider's response.
\<close>

theorem extract_failure_paths:
  "(let req = request_contents self (fst (create_few_shot_examples lib self w)) pdf_data;
        out = extract_data_from_pdf lib self pdf_data w in
    (\<forall>e. client self req = Inl e \<longrightarrow>
       fst out = Inl e \<and>
       logs (snd out) = logs (snd (create_few_shot_examples lib self w))
          @ [(ERROR, ''Error extracting contract data from PDF: '' @ str_exc e)]) \<and>
    (\<forall>response r. client self req = Inr response \<and> parsed response = Some r \<longrightarrow>
       fst out = Inr (Some r)) \<and>
    (\<forall>r. fst out = Inr (Some r) \<longrightarrow> (\<exists>response. client self req = Inr response \<and> parsed response = Some r)))"
  by (auto simp: Let_def extract_result logger_def split: sum.splits)

theorem extract_failure_paths_witness:
  "client (ex_extractor_down None) (request_contents (ex_extractor_down None) [] ex_pdf)
     = Inl (PyExc APIError ''503 UNAVAILABLE'')
   \<and> fst (extract_data_from_pdf ex_lib (ex_extractor_down None) ex_pdf ex_world)
       = Inl (PyExc APIError ''503 UNAVAILABLE'')
   \<and> logs (snd (extract_data_from_pdf ex_lib (ex_extractor_down None) ex_pdf ex_world))
       = [(ERROR, ''Error extracting contract data from PDF: 503 UNAVAILABLE'')]
   \<and> client (ex_extractor_answering ex_answer_required_only)
        (request_contents (ex_extractor_answering ex_answer_required_only) [] ex_pdf)
       = Inr \<lparr>parsed = Some ex_contract_minimal\<rparr>
   \<and> fst (extract_data_from_pdf ex_lib (ex_extractor_answering ex_answer_required_only) ex_pdf ex_world)
       = Inr (Some ex_contract_minimal)"
proof -
  let ?self = "ex_extractor_down None :: pyfloat ContractExtractor"
  let ?good = "ex_extractor_answering ex_answer_required_only"
  have c: "create_few_shot_examples ex_lib ?self ex_world = ([], ex_world)"
    "create_few_shot_examples ex_lib ?good ex_world = ([], ex_world)"
    by (simp_all add: create_no_path ex_extractor_down_simps ex_extractor_answering_simps)
  have l: "logs ex_world = []" by (simp add: ex_world_def)
  have d: "client ?self (request_contents ?self (fst (create_few_shot_examples ex_lib ?self ex_world)) ex_pdf)
             = Inl (PyExc APIError ''503 UNAVAILABLE'')"
    by (simp add: ex_extractor_down_simps)
  have d': "client ?self (request_contents ?self [] ex_pdf) = Inl (PyExc APIError ''503 UNAVAILABLE'')"
    by (simp add: ex_extractor_down_simps)
  have a: "client ?good (request_contents ?good [] ex_pdf) = Inr \<lparr>parsed = Some ex_contract_minimal\<rparr>"
    by (simp add: ex_extractor_answering_simps schema_client_def ex_provider_def validate_required_only)
  have a': "client ?good (request_contents ?good (fst (create_few_shot_examples ex_lib ?good ex_world)) ex_pdf)
              = Inr \<lparr>parsed = Some ex_contract_minimal\<rparr>"
    unfolding c by (simp add: a)
  have p: "parsed \<lparr>parsed = Some ex_contract_minimal\<rparr> = Some ex_contract_minimal" by simp
  note t = extract_failure_paths [where self = ?self and lib = ex_lib and w = ex_world
      and pdf_data = ex_pdf, unfolded Let_def]
  note t' = extract_failure_paths [where self = ?good and lib = ex_lib and w = ex_world
      and pdf_data = ex_pdf, unfolded Let_def]
  from t d have f: "fst (extract_data_from_pdf ex_lib ?self ex_pdf ex_world) = Inl (PyExc APIError ''503 UNAVAILABLE'')
    \<and> logs (snd (extract_data_from_pdf ex_lib ?self ex_pdf ex_world))
        = logs (snd (create_few_shot_examples ex_lib ?self ex_world))
            @ [(ERROR, ''Error extracting contract data from PDF: '' @ str_exc (PyExc APIError ''503 UNAVAILABLE''))]"
    by blast
  from t' a' p have r: "fst (extract_data_from_pdf ex_lib ?good ex_pdf ex_world) = Inr (Some ex_contract_minimal)"
    by blast
  from f d' a r show ?thesis by (simp add: c l)
qed

text \<open>
  The exception of a failing model call reaches the caller as it is, an APIError and no
  wrapper around it; and with zero-length \<^verbatim>\<open>pdf_data\<close> the call does not fail when the
  provider answers: it returns the record of the response.
\<close>

theorem extract_failure_paths_counterexample:
  "client (ex_extractor_down None) (request_contents (ex_extractor_down None) [] ex_pdf)
     = Inl (PyExc APIError ''503 UNAVAILABLE'')
   \<and> fst (extract_data_from_pdf ex_lib (ex_extractor_down None) ex_pdf ex_world)
       = Inl (PyExc APIError ''503 UNAVAILABLE'')
   \<and> fst (extract_data_from_pdf ex_lib (ex_extractor_answering ex_answer_required_only) [] ex_world)
       = Inr (Some ex_contract_minimal)"
  by (simp add: extract_result ex_extractor_answering_simps ex_extractor_down_simps schema_client_def
      ex_provider_def validate_required_only create_no_path)

subsection \<open>C2: the defaults of data_ownership and license_count\<close>

text \<open>
  C2, as amended. For a model response that validates, extract_data_from_pdf returns the
  record built from it; its data_ownership is "DEALER" if the response omitted the key and
  its license_count is -1 if the response omitted the key; a key that is present with a
  string (an integer) is carried unchanged. The value may itself be "DEALER" or -1, so
  the default value in the record does not tell that the key was omitted.
\<close>

theorem extract_defaults:
  assumes "accepts_typed v"
    and "client self = schema_client v provider"
    and "provider (request_contents self (fst (create_few_shot_examples lib self w)) pdf_data) = Inr (JObj kv)"
    and "SoftwareContract_validate v (JObj kv) = Some r"
  shows "fst (extract_data_from_pdf lib self pdf_data w) = Inr (Some r) \<and>
         (map_of kv ''data_ownership'' = None \<longrightarrow> data_ownership r = ''DEALER'') \<and>
         (\<forall>s. map_of kv ''data_ownership'' = Some (JStr s) \<longrightarrow> data_ownership r = s) \<and>
         (map_of kv ''license_count'' = None \<longrightarrow> license_count r = - 1) \<and>
         (\<forall>n. map_of kv ''license_count'' = Some (JInt n) \<longrightarrow> license_count r = n)"
proof -
  have "fst (extract_data_from_pdf lib self pdf_data w) = Inr (Some r)"
    using assms(2,3,4) by (simp add: extract_result schema_client_def)
  with validate_defaults_values [OF assms(1,4)] show ?thesis by simp
qed

theorem extract_defaults_witness:
  "accepts_typed (strict_validators :: pyfloat validators)
   \<and> SoftwareContract_validate strict_validators (JObj ex_answer_required_only) = Some ex_contract_minimal
   \<and> fst (extract_data_from_pdf ex_lib (ex_extractor_answering ex_answer_required_only) ex_pdf ex_world)
       = Inr (Some ex_contract_minimal)
   \<and> map_of ex_answer_required_only ''data_ownership'' = None
   \<and> data_ownership ex_contract_minimal = ''DEALER''
   \<and> map_of ex_answer_required_only ''license_count'' = None
   \<and> license_count ex_contract_minimal = - 1
   \<and> SoftwareContract_validate strict_validators (JObj ex_answer_vendor) = Some ex_contract_vendor
   \<and> fst (extract_data_from_pdf ex_lib (ex_extractor_answering ex_answer_vendor) ex_pdf ex_world)
       = Inr (Some ex_contract_vendor)
   \<and> map_of ex_answer_vendor ''data_ownership'' = Some (JStr ''VENDOR'')
   \<and> data_ownership ex_contract_vendor = ''VENDOR''
   \<and> map_of ex_answer_vendor ''license_count'' = Some (JInt 25)
   \<and> license_count ex_contract_vendor = 25"
proof -
  have k: "map_of ex_answer_required_only ''data_ownership'' = None"
    "map_of ex_answer_required_only ''license_count'' = None"
    "map_of ex_answer_vendor ''data_ownership'' = Some (JStr ''VENDOR'')"
    "map_of ex_answer_vendor ''license_count'' = Some (JInt 25)"
    by (simp_all add: ex_answer_required_only_def ex_answer_vendor_def)
  have p: "ex_provider kv contents = Inr (JObj kv)" for kv contents
    by (simp add: ex_provider_def)
  note t1 = extract_defaults [where v = strict_validators and self = "ex_extractor_answering ex_answer_required_only"
      and provider = "ex_provider ex_answer_required_only" and lib = ex_lib and w = ex_world
      and pdf_data = ex_pdf and kv = ex_answer_required_only and r = ex_contract_minimal,
      OF accepts_typed_strict ex_extractor_answering_simps(1) p validate_required_only]
  note t2 = extract_defaults [where v = strict_validators and self = "ex_extractor_answering ex_answer_vendor"
      and provider = "ex_provider ex_answer_vendor" and lib = ex_lib and w = ex_world
      and pdf_data = ex_pdf and kv = ex_answer_vendor and r = ex_contract_vendor,
      OF accepts_typed_strict ex_extractor_answering_simps(1) p validate_vendor]
  from t1 t2 k accepts_typed_strict validate_required_only validate_vendor
  show ?thesis by simp
qed

text \<open>
  A response that carries "DEALER" and -1 explicitly gives the same record as one that omits
  both keys.
\<close>

theorem extract_defaults_counterexample:
  "fst (extract_data_from_pdf ex_lib (ex_extractor_answering ex_answer_explicit) ex_pdf ex_world)
     = Inr (Some ex_contract_minimal)
   \<and> data_ownership ex_contract_minimal = ''DEALER''
   \<and> map_of ex_answer_explicit ''data_ownership'' = Some (JStr ''DEALER'')
   \<and> license_count ex_contract_minimal = - 1
   \<and> map_of ex_answer_explicit ''license_count'' = Some (JInt (- 1))"
  by (simp add: extract_result ex_extractor_answering_simps schema_client_def ex_provider_def
      validate_explicit create_no_path)
     (simp add: ex_answer_explicit_def ex_answer_required_only_def ex_contract_minimal_def)

subsection \<open>C5: rendering of absent fields, unlimited licenses and amounts\<close>

text \<open>
  C5, as amended. In the table of display_contract_data every optional field that is absent
  is shown as "NULL" and a license_count of -1 is shown as "Unlimited". An amount that is
  present is shown as "$" followed by its \<^verbatim>\<open>.2f\<close> format: for a finite amount that is
  the amount rounded to two decimals; for an infinite or NaN amount it is
  \<^verbatim>\<open>inf\<close>, \<^verbatim>\<open>-inf\<close> or \<^verbatim>\<open>nan\<close>, without decimals.
\<close>

theorem display_null_unlimited_currency:
  "(let d = display_contract_data c in
    (contract_start c = None \<longrightarrow> shown d ''Contract Start'' = Some (StrCell ''NULL'')) \<and>
    (contract_end c = None \<longrightarrow> shown d ''Contract End'' = Some (StrCell ''NULL'')) \<and>
    (contract_period c = None \<longrightarrow> shown d ''Contract Period'' = Some (StrCell ''NULL'')) \<and>
    (auto_renewal c = None \<longrightarrow> shown d ''Auto-renewal'' = Some (StrCell ''NULL'')) \<and>
    (cancellation_notice_initial c = None \<longrightarrow>
       shown d ''Cancellation Notice (INITIAL TERM, DAYS)'' = Some (StrCell ''NULL'')) \<and>
    (cancellation_notice_ongoing c = None \<longrightarrow>
       shown d ''Cancellation Notice (ONGOING, DAYS)'' = Some (StrCell ''NULL'')) \<and>
    (payment_terms c = None \<longrightarrow> shown d ''Payment Terms'' = Some (StrCell ''NULL'')) \<and>
    (payment_delay c = None \<longrightarrow> shown d ''Payment Delay'' = Some (StrCell ''NULL'')) \<and>
    (payment_amount_setup c = None \<longrightarrow> shown d ''Payment amount, setup fee'' = Some (StrCell ''NULL'')) \<and>
    (payment_amount_per_terms c = None \<longrightarrow> shown d ''Payment amount per terms'' = Some (StrCell ''NULL'')) \<and>
    (sla_uptime_guarantee c = None \<longrightarrow> shown d ''SLA/Uptime Guarantee'' = Some (StrCell ''NULL'')) \<and>
    (integration_clauses c = None \<longrightarrow> shown d ''Integration Clauses'' = Some (StrCell ''NULL'')) \<and>
    (license_count c = - 1 \<longrightarrow> shown d ''License Count'' = Some (StrCell ''Unlimited'')) \<and>
    (\<forall>x. payment_amount_setup c = Some x \<longrightarrow>
       shown d ''Payment amount, setup fee'' = Some (StrCell (''$'' @ format_2f x))) \<and>
    (\<forall>x. payment_amount_per_terms c = Some x \<longrightarrow>
       shown d ''Payment amount per terms'' = Some (StrCell (''$'' @ format_2f x))) \<and>
    (\<forall>s m e. two_decimals (format_2f (Finite s m e))) \<and>
    (\<forall>s. payment_amount_setup c = Some (Inf s) \<longrightarrow>
       shown d ''Payment amount, setup fee'' = Some (StrCell (if s then ''$-inf'' else ''$inf''))) \<and>
    (payment_amount_setup c = Some NaN \<longrightarrow>
       shown d ''Payment amount, setup fee'' = Some (StrCell ''$nan'')) \<and>
    (\<forall>s. payment_amount_per_terms c = Some (Inf s) \<longrightarrow>
       shown d ''Payment amount per terms'' = Some (StrCell (if s then ''$-inf'' else ''$inf''))) \<and>
    (payment_amount_per_terms c = Some NaN \<longrightarrow>
       shown d ''Payment amount per terms'' = Some (StrCell ''$nan'')))"
  by (simp add: Let_def shown_display opt_str_else_null_def two_decimals_format_2f format_2f.simps(2,3))

theorem display_null_unlimited_currency_witness:
  "shown (display_contract_data ex_contract_minimal) ''Contract Start'' = Some (StrCell ''NULL'')
   \<and> shown (display_contract_data ex_contract_minimal) ''Contract End'' = Some (StrCell ''NULL'')
   \<and> shown (display_contract_data ex_contract_minimal) ''Contract Period'' = Some (StrCell ''NULL'')
   \<and> shown (display_contract_data ex_contract_minimal) ''Auto-renewal'' = Some (StrCell ''NULL'')
   \<and> shown (display_contract_data ex_contract_minimal) ''Cancellation Notice (INITIAL TERM, DAYS)'' = Some (StrCell ''NULL'')
   \<and> shown (display_contract_data ex_contract_minimal) ''Cancellation Notice (ONGOING, DAYS)'' = Some (StrCell ''NULL'')
   \<and> shown (display_contract_data ex_contract_minimal) ''Payment Terms'' = Some (StrCell ''NULL'')
   \<and> shown (display_contract_data ex_contract_minimal) ''Payment Delay'' = Some (StrCell ''NULL'')
   \<and> shown (display_contract_data ex_contract_minimal) ''Payment amount, setup fee'' = Some (StrCell ''NULL'')
   \<and> shown (display_contract_data ex_contract_minimal) ''Payment amount per terms'' = Some (StrCell ''NULL'')
   \<and> shown (display_contract_data ex_contract_minimal) ''SLA/Uptime Guarantee'' = Some (StrCell ''NULL'')
   \<and> shown (display_contract_data ex_contract_minimal) ''Integration Clauses'' = Some (StrCell ''NULL'')
   \<and> shown (display_contract_data ex_contract_minimal) ''License Count'' = Some (StrCell ''Unlimited'')
   \<and> shown (display_contract_data ex_contract_paid) ''Payment amount, setup fee'' = Some (StrCell ''$1500.00'')
   \<and> shown (display_contract_data ex_contract_paid) ''Payment amount per terms'' = Some (StrCell ''$49.99'')
   \<and> two_decimals ''1500.00'' \<and> two_decimals ''49.99''
   \<and> shown (display_contract_data ex_contract_inf) ''Payment amount, setup fee'' = Some (StrCell ''$inf'')
   \<and> shown (display_contract_data (ex_contract_minimal\<lparr>payment_amount_setup := Some NaN,
          payment_amount_per_terms := Some (Inf True)\<rparr>)) ''Payment amount, setup fee'' = Some (StrCell ''$nan'')
   \<and> shown (display_contract_data (ex_contract_minimal\<lparr>payment_amount_setup := Some NaN,
          payment_amount_per_terms := Some (Inf True)\<rparr>)) ''Payment amount per terms'' = Some (StrCell ''$-inf'')"
proof -
  note t = display_null_unlimited_currency [unfolded Let_def]
  let ?nan = "ex_contract_minimal\<lparr>payment_amount_setup := Some NaN,
          payment_amount_per_terms := Some (Inf True)\<rparr>"
  have td: "two_decimals ''1500.00''" "two_decimals ''49.99''"
    using t [where c = ex_contract_paid, THEN conjunct2, THEN conjunct2, THEN conjunct2,
        THEN conjunct2, THEN conjunct2, THEN conjunct2, THEN conjunct2, THEN conjunct2,
        THEN conjunct2, THEN conjunct2, THEN conjunct2, THEN conjunct2, THEN conjunct2,
        THEN conjunct2, THEN conjunct2, THEN conjunct1, rule_format, of False 1500 0]
      t [where c = ex_contract_paid, THEN conjunct2, THEN conjunct2, THEN conjunct2,
        THEN conjunct2, THEN conjunct2, THEN conjunct2, THEN conjunct2, THEN conjunct2,
        THEN conjunct2, THEN conjunct2, THEN conjunct2, THEN conjunct2, THEN conjunct2,
        THEN conjunct2, THEN conjunct2, THEN conjunct1, rule_format, of False 7035467042882847 "- 47"]
    by (simp_all only: format_2f_examples)
  have m: "contract_start ex_contract_minimal = None" "contract_end ex_contract_minimal = None"
    "contract_period ex_contract_minimal = None" "auto_renewal ex_contract_minimal = None"
    "cancellation_notice_initial ex_contract_minimal = None"
    "cancellation_notice_ongoing ex_contract_minimal = None"
    "payment_terms ex_contract_minimal = None" "payment_delay ex_contract_minimal = None"
    "payment_amount_setup ex_contract_minimal = None"
    "payment_amount_per_terms ex_contract_minimal = None"
    "sla_uptime_guarantee ex_contract_minimal = None"
    "integration_clauses ex_contract_minimal = None" "license_count ex_contract_minimal = - 1"
    by (simp_all add: ex_contract_minimal_def)
  have p: "payment_amount_setup ex_contract_paid = Some (Finite False 1500 0)"
    "payment_amount_per_terms ex_contract_paid = Some (Finite False 7035467042882847 (- 47))"
    by (simp_all add: ex_contract_paid_def)
  have i: "payment_amount_setup ex_contract_inf = Some (Inf False)"
    by (simp add: ex_contract_inf_def)
  have n: "payment_amount_setup ?nan = Some NaN" "payment_amount_per_terms ?nan = Some (Inf True)"
    by simp_all
  have a: "shown (display_contract_data ex_contract_minimal) ''Contract Start'' = Some (StrCell ''NULL'')
   \<and> shown (display_contract_data ex_contract_minimal) ''Contract End'' = Some (StrCell ''NULL'')
   \<and> shown (display_contract_data ex_contract_minimal) ''Contract Period'' = Some (StrCell ''NULL'')
   \<and> shown (display_contract_data ex_contract_minimal) ''Auto-renewal'' = Some (StrCell ''NULL'')
   \<and> shown (display_contract_data ex_contract_minimal) ''Cancellation Notice (INITIAL TERM, DAYS)'' = Some (StrCell ''NULL'')
   \<and> shown (display_contract_data ex_contract_minimal) ''Cancellation Notice (ONGOING, DAYS)'' = Some (StrCell ''NULL'')
   \<and> shown (display_contract_data ex_contract_minimal) ''Payment Terms'' = Some (StrCell ''NULL'')
   \<and> shown (display_contract_data ex_contract_minimal) ''Payment Delay'' = Some (StrCell ''NULL'')
   \<and> shown (display_contract_data ex_contract_minimal) ''Payment amount, setup fee'' = Some (StrCell ''NULL'')
   \<and> shown (display_contract_data ex_contract_minimal) ''Payment amount per terms'' = Some (StrCell ''NULL'')
   \<and> shown (display_contract_data ex_contract_minimal) ''SLA/Uptime Guarantee'' = Some (StrCell ''NULL'')
   \<and> shown (display_contract_data ex_contract_minimal) ''Integration Clauses'' = Some (StrCell ''NULL'')
   \<and> shown (display_contract_data ex_contract_minimal) ''License Count'' = Some (StrCell ''Unlimited'')"
    using t [where c = ex_contract_minimal] m by simp
  have b: "shown (display_contract_data ex_contract_paid) ''Payment amount, setup fee'' = Some (StrCell ''$1500.00'')
   \<and> shown (display_contract_data ex_contract_paid) ''Payment amount per terms'' = Some (StrCell ''$49.99'')"
    using t [where c = ex_contract_paid] p by (simp add: format_2f_examples)
  have c: "shown (display_contract_data ex_contract_inf) ''Payment amount, setup fee'' = Some (StrCell ''$inf'')"
    using t [where c = ex_contract_inf] i by (simp add: format_2f.simps(2,3))
  have d: "shown (display_contract_data ?nan) ''Payment amount, setup fee'' = Some (StrCell ''$nan'')
   \<and> shown (display_contract_data ?nan) ''Payment amount per terms'' = Some (StrCell ''$-inf'')"
    using t [where c = ?nan] n by (simp add: format_2f.simps(2,3))
  from a b td c d show ?thesis by simp
qed

text \<open>
  An amount that is infinite is shown as "$inf": a symbol, but no decimals.
\<close>

theorem display_null_unlimited_currency_counterexample:
  "payment_amount_setup ex_contract_inf = Some (Inf False)
   \<and> shown (display_contract_data ex_contract_inf) ''Payment amount, setup fee'' = Some (StrCell ''$inf'')
   \<and> \<not> two_decimals ''inf''"
  by (simp add: shown_display ex_contract_inf_def ex_contract_minimal_def not_two_decimals_inf
      format_2f_examples)

subsection \<open>C6: data_ownership and license_count are never missing\<close>

text \<open>
  C6, as amended. In every rendered table the value of "Data Ownership" is a non-empty
  string ("DEALER" when the record's data_ownership is empty) and the value of
  "License Count" is a non-empty string other than "NULL" ("Unlimited" for -1). A record
  built from a response that omits data_ownership has "DEALER", one built from a response
  that omits license_count has -1, and license_count is an integer in every record.
\<close>

theorem ownership_and_license_fallbacks:
  "(\<exists>s. shown (display_contract_data c) ''Data Ownership'' = Some (StrCell s) \<and> s \<noteq> []
        \<and> (data_ownership c = [] \<longrightarrow> s = ''DEALER'')) \<and>
   (\<exists>s. shown (display_contract_data c) ''License Count'' = Some (StrCell s) \<and> s \<noteq> []
        \<and> s \<noteq> ''NULL'' \<and> (license_count c = - 1 \<longrightarrow> s = ''Unlimited'')) \<and>
   (\<forall>v kv. SoftwareContract_validate v (JObj kv) = Some c \<longrightarrow>
        (map_of kv ''data_ownership'' = None \<longrightarrow> data_ownership c = ''DEALER'') \<and>
        (map_of kv ''license_count'' = None \<longrightarrow> license_count c = - 1))"
proof (intro conjI allI impI)
  show "\<exists>s. shown (display_contract_data c) ''Data Ownership'' = Some (StrCell s) \<and> s \<noteq> []
        \<and> (data_ownership c = [] \<longrightarrow> s = ''DEALER'')"
    by (simp add: shown_display str_or_def)
  show "\<exists>s. shown (display_contract_data c) ''License Count'' = Some (StrCell s) \<and> s \<noteq> []
        \<and> s \<noteq> ''NULL'' \<and> (license_count c = - 1 \<longrightarrow> s = ''Unlimited'')"
    by (simp add: shown_display str_int_nonempty str_int_not_NULL)
next
  fix v :: "pyfloat validators" and kv
  assume ok: "SoftwareContract_validate v (JObj kv) = Some c"
  {
    assume "map_of kv ''data_ownership'' = None"
    with validate_defaults(1) [OF ok] show "data_ownership c = ''DEALER''"
      by (simp add: default_field_def)
  }
  {
    assume "map_of kv ''license_count'' = None"
    with validate_defaults(2) [OF ok] show "license_count c = - 1"
      by (simp add: default_field_def)
  }
qed

theorem ownership_and_license_fallbacks_witness:
  "data_ownership ex_contract_empty_owner = []
   \<and> shown (display_contract_data ex_contract_empty_owner) ''Data Ownership'' = Some (StrCell ''DEALER'')
   \<and> license_count ex_contract_empty_owner = - 1
   \<and> shown (display_contract_data ex_contract_empty_owner) ''License Count'' = Some (StrCell ''Unlimited'')
   \<and> SoftwareContract_validate strict_validators (JObj ex_answer_required_only) = Some ex_contract_minimal
   \<and> map_of ex_answer_required_only ''data_ownership'' = None
   \<and> data_ownership ex_contract_minimal = ''DEALER''
   \<and> map_of ex_answer_required_only ''license_count'' = None
   \<and> license_count ex_contract_minimal = - 1"
proof -
  have d: "data_ownership ex_contract_empty_owner = []" "license_count ex_contract_empty_owner = - 1"
    by (simp_all add: ex_contract_empty_owner_def ex_contract_minimal_def)
  have k: "map_of ex_answer_required_only ''data_ownership'' = None"
    "map_of ex_answer_required_only ''license_count'' = None"
    by (simp_all add: ex_answer_required_only_def)
  note t1 = ownership_and_license_fallbacks [where c = ex_contract_empty_owner]
  note t2 = ownership_and_license_fallbacks [where c = ex_contract_minimal]
  from t1 d have a: "shown (display_contract_data ex_contract_empty_owner) ''Data Ownership'' = Some (StrCell ''DEALER'')"
    by blast
  from t1 d have b: "shown (display_contract_data ex_contract_empty_owner) ''License Count'' = Some (StrCell ''Unlimited'')"
    by blast
  from t2 validate_required_only k
  have c: "data_ownership ex_contract_minimal = ''DEALER'' \<and> license_count ex_contract_minimal = - 1"
    by blast
  from a b c d k validate_required_only show ?thesis by simp
qed

text \<open>
  A response that supplies data_ownership as the empty string gives a record whose
  data_ownership is empty.
\<close>

theorem ownership_and_license_fallbacks_counterexample:
  "fst (extract_data_from_pdf ex_lib (ex_extractor_answering ex_answer_empty_owner) ex_pdf ex_world)
     = Inr (Some ex_contract_empty_owner)
   \<and> data_ownership ex_contract_empty_owner = []"
  by (simp add: extract_result ex_extractor_answering_simps schema_client_def ex_provider_def
      validate_empty_owner create_no_path)
     (simp add: ex_contract_empty_owner_def)

subsection \<open>C10: falsy values in the rendering\<close>

text \<open>
  C10, as amended. A payment_delay of 0 and an empty string in a field tested by
  truthiness are shown as "NULL", as an absent value is. The other optional integer and
  float fields are tested against \<^verbatim>\<open>None\<close> and a present value is never shown as
  "NULL": contract_period 0 is shown as "0 months", a cancellation notice of 0 as "0",
  and an amount as "$" followed by its two-decimal format.
\<close>

theorem display_falsy_values:
  "(let d = display_contract_data c in
    (payment_delay c = Some 0 \<longrightarrow> shown d ''Payment Delay'' = Some (StrCell ''NULL'')) \<and>
    (software_system_name c = [] \<longrightarrow> shown d ''Software/System Name'' = Some (StrCell ''NULL'')) \<and>
    (vendor_name_dba c = [] \<longrightarrow> shown d ''Vendor Name (DOING BUSINESS AS)'' = Some (StrCell ''NULL'')) \<and>
    (vendor_name_legal c = [] \<longrightarrow> shown d ''Vendor Name (LEGAL ENTITY)'' = Some (StrCell ''NULL'')) \<and>
    (payment_terms c = Some [] \<longrightarrow> shown d ''Payment Terms'' = Some (StrCell ''NULL'')) \<and>
    (sla_uptime_guarantee c = Some [] \<longrightarrow> shown d ''SLA/Uptime Guarantee'' = Some (StrCell ''NULL'')) \<and>
    (integration_clauses c = Some [] \<longrightarrow> shown d ''Integration Clauses'' = Some (StrCell ''NULL'')) \<and>
    (contract_start c = Some [] \<longrightarrow> shown d ''Contract Start'' = Some (StrCell ''NULL'')) \<and>
    (contract_end c = Some [] \<longrightarrow> shown d ''Contract End'' = Some (StrCell ''NULL'')) \<and>
    (contract_period c = Some 0 \<longrightarrow> shown d ''Contract Period'' = Some (StrCell ''0 months'')) \<and>
    (cancellation_notice_initial c = Some 0 \<longrightarrow>
       shown d ''Cancellation Notice (INITIAL TERM, DAYS)'' = Some (StrCell ''0'')) \<and>
    (cancellation_notice_ongoing c = Some 0 \<longrightarrow>
       shown d ''Cancellation Notice (ONGOING, DAYS)'' = Some (StrCell ''0'')) \<and>
    (\<forall>n. contract_period c = Some n \<longrightarrow>
       shown d ''Contract Period'' = Some (StrCell (str_int n @ '' months''))
       \<and> str_int n @ '' months'' \<noteq> ''NULL'') \<and>
    (\<forall>n. cancellation_notice_initial c = Some n \<longrightarrow>
       shown d ''Cancellation Notice (INITIAL TERM, DAYS)'' = Some (StrCell (str_int n))
       \<and> str_int n \<noteq> ''NULL'') \<and>
    (\<forall>n. cancellation_notice_ongoing c = Some n \<longrightarrow>
       shown d ''Cancellation Notice (ONGOING, DAYS)'' = Some (StrCell (str_int n))
       \<and> str_int n \<noteq> ''NULL'') \<and>
    (\<forall>x. payment_amount_setup c = Some x \<longrightarrow>
       shown d ''Payment amount, setup fee'' = Some (StrCell (''$'' @ format_2f x))
       \<and> ''$'' @ format_2f x \<noteq> ''NULL'') \<and>
    (\<forall>x. payment_amount_per_terms c = Some x \<longrightarrow>
       shown d ''Payment amount per terms'' = Some (StrCell (''$'' @ format_2f x))
       \<and> ''$'' @ format_2f x \<noteq> ''NULL''))"
proof -
  have m: "str_int n @ '' months'' \<noteq> ''NULL''" for n
  proof
    assume "str_int n @ '' months'' = ''NULL''"
    then have "last (str_int n @ '' months'') = last ''NULL''" by (rule arg_cong)
    then show False by simp
  qed
  show ?thesis
    by (simp add: Let_def shown_display opt_str_else_null_def str_or_def str_int_0 str_int_not_NULL m)
qed

theorem display_falsy_values_witness:
  "payment_delay ex_contract_falsy = Some 0
   \<and> shown (display_contract_data ex_contract_falsy) ''Payment Delay'' = Some (StrCell ''NULL'')
   \<and> software_system_name ex_contract_falsy = []
   \<and> shown (display_contract_data ex_contract_falsy) ''Software/System Name'' = Some (StrCell ''NULL'')
   \<and> shown (display_contract_data ex_contract_falsy) ''Vendor Name (DOING BUSINESS AS)'' = Some (StrCell ''NULL'')
   \<and> shown (display_contract_data ex_contract_falsy) ''Vendor Name (LEGAL ENTITY)'' = Some (StrCell ''NULL'')
   \<and> payment_terms ex_contract_falsy = Some []
   \<and> shown (display_contract_data ex_contract_falsy) ''Payment Terms'' = Some (StrCell ''NULL'')
   \<and> shown (display_contract_data ex_contract_falsy) ''SLA/Uptime Guarantee'' = Some (StrCell ''NULL'')
   \<and> shown (display_contract_data ex_contract_falsy) ''Integration Clauses'' = Some (StrCell ''NULL'')
   \<and> shown (display_contract_data ex_contract_falsy) ''Contract Start'' = Some (StrCell ''NULL'')
   \<and> shown (display_contract_data ex_contract_falsy) ''Contract End'' = Some (StrCell ''NULL'')
   \<and> contract_period ex_contract_falsy = Some 0
   \<and> shown (display_contract_data ex_contract_falsy) ''Contract Period'' = Some (StrCell ''0 months'')
   \<and> shown (display_contract_data ex_contract_falsy) ''Cancellation Notice (INITIAL TERM, DAYS)'' = Some (StrCell ''0'')
   \<and> shown (display_contract_data ex_contract_falsy) ''Cancellation Notice (ONGOING, DAYS)'' = Some (StrCell ''0'')
   \<and> payment_amount_setup ex_contract_falsy = Some (Finite False 0 0)
   \<and> shown (display_contract_data ex_contract_falsy) ''Payment amount, setup fee'' = Some (StrCell ''$0.00'')
   \<and> shown (display_contract_data ex_contract_falsy) ''Payment amount per terms'' = Some (StrCell ''$0.00'')"
  using display_falsy_values [where c = ex_contract_falsy]
  by (simp add: Let_def ex_contract_falsy_def format_2f_examples)

text \<open>
  A contract_period of 0 is shown as "0 months" and an amount of 0 as "$0.00", not as "0".
\<close>

theorem display_falsy_values_counterexample:
  "contract_period ex_contract_falsy = Some 0
   \<and> shown (display_contract_data ex_contract_falsy) ''Contract Period'' = Some (StrCell ''0 months'')
   \<and> shown (display_contract_data ex_contract_falsy) ''Contract Period'' \<noteq> Some (StrCell ''0'')
   \<and> payment_amount_setup ex_contract_falsy = Some (Finite False 0 0)
   \<and> shown (display_contract_data ex_contract_falsy) ''Payment amount, setup fee'' = Some (StrCell ''$0.00'')
   \<and> shown (display_contract_data ex_contract_falsy) ''Payment amount, setup fee'' \<noteq> Some (StrCell ''0'')"
  by (simp add: shown_display ex_contract_falsy_def format_2f_examples str_int_0)

subsection \<open>C7: the temporary file of an upload\<close>

text \<open>
  C7 does not hold of the code. The \<^verbatim>\<open>try/finally\<close> that unlinks the temporary
  file starts after the \<^verbatim>\<open>with\<close> block that stages the content. When
  \<^verbatim>\<open>uploaded_file.getvalue()\<close> raises inside that block (the buffer is closed),
  extract_data_from_uploaded_file ends with that exception and the file that
  \<^verbatim>\<open>NamedTemporaryFile(delete=False)\<close> created is still there.
\<close>

theorem temp_file_left_behind:
  "fs ex_world ex_tmp = None
   \<and> extract_data_from_uploaded_file ex_lib (ex_extractor_answering ex_answer_required_only)
        ex_tmp ex_upload_closed ex_world
     = (Inl (PyExc ValueError ''I/O operation on closed file.''),
        ex_world\<lparr>fs := (fs ex_world)(ex_tmp \<mapsto> File [])\<rparr>)
   \<and> fs (snd (extract_data_from_uploaded_file ex_lib (ex_extractor_answering ex_answer_required_only)
        ex_tmp ex_upload_closed ex_world)) ex_tmp = Some (File [])"
  by (simp add: extract_data_from_uploaded_file_def getvalue_def ex_upload_closed_def)
     (simp add: ex_world_def ex_tmp_def)

subsection \<open>C8: entries whose PDF is missing\<close>




subsection \<open>C9: an upload is extracted like its bytes\<close>

text \<open>
  C9. For an uploaded file whose content can be read, extract_data_from_uploaded_file gives
  what extract_data_from_pdf gives on the file's bytes (the same result, log and files):
  the bytes written to the temporary file are the bytes read back. The temporary name is
  fresh: it names no existing file, and neither the manifest path nor a manifest entry is
  that name.
\<close>

theorem uploaded_file_same_as_pdf:
  assumes "\<not> closed uploaded" and "fs w tmp = None"
    and "few_shot_examples_path self \<noteq> Some tmp" and "tmp \<notin> set (manifest_paths lib self w)"
  shows "extract_data_from_uploaded_file lib self tmp uploaded w
           = extract_data_from_pdf lib self (buffer uploaded) w"
proof -
  let ?w2 = "w\<lparr>fs := (fs w)(tmp \<mapsto> File (buffer uploaded))\<rparr>"
  let ?out = "extract_data_from_pdf lib self (buffer uploaded) w"
  have f: "extract_data_from_file lib self tmp ?w2
             = (fst ?out, (snd ?out)\<lparr>fs := (fs w)(tmp \<mapsto> File (buffer uploaded))\<rparr>)"
    by (simp add: extract_data_from_file_def read_file_def extract_fs_update [OF assms(3,4)])
  have r: "(fs w)(tmp := None) = fs w" using assms(2) by auto
  have e: "(snd ?out)\<lparr>fs := fs w\<rparr> = snd ?out"
    by (metis extract_fs world.surjective world.update_convs(1))
  show ?thesis
    using assms(1)
    by (simp add: extract_data_from_uploaded_file_def getvalue_def os_unlink_def f r e)
qed

theorem uploaded_file_same_as_pdf_witness:
  "\<not> closed ex_upload
   \<and> fs ex_world ex_tmp = None
   \<and> few_shot_examples_path ex_extractor_full \<noteq> Some ex_tmp
   \<and> ex_tmp \<notin> set (manifest_paths (with_manifest ex_lib (JArr [JObj ex_good_items])) ex_extractor_full ex_world)
   \<and> extract_data_from_uploaded_file (with_manifest ex_lib (JArr [JObj ex_good_items]))
        ex_extractor_full ex_tmp ex_upload ex_world
     = extract_data_from_pdf (with_manifest ex_lib (JArr [JObj ex_good_items]))
        ex_extractor_full (buffer ex_upload) ex_world
   \<and> extract_data_from_pdf (with_manifest ex_lib (JArr [JObj ex_good_items]))
        ex_extractor_full (buffer ex_upload) ex_world
     = (Inr (Some ex_contract_minimal), ex_world)"
proof -
  let ?lib = "with_manifest ex_lib (JArr [JObj ex_good_items])"
  have h1: "\<not> closed ex_upload" by (simp add: ex_upload_def)
  have h2: "fs ex_world ex_tmp = None" by (simp add: ex_world_def ex_tmp_def)
  have h3: "few_shot_examples_path ex_extractor_full \<noteq> Some ex_tmp"
    by (simp add: ex_extractor_full_simps ex_tmp_def)
  have h4: "ex_tmp \<notin> set (manifest_paths ?lib ex_extractor_full ex_world)"
    by (simp add: manifest_paths_def ex_extractor_full_simps read_file_def ex_world_def
        ex_good_items_def ex_tmp_def posix_path_examples)
  have c: "create_few_shot_examples ?lib ex_extractor_full ex_world = (ex_good_triple, ex_world)"
    by (simp add: few_shot_unfold ex_extractor_full_simps)
  have e: "extract_data_from_pdf ?lib ex_extractor_full (buffer ex_upload) ex_world
             = (Inr (Some ex_contract_minimal), ex_world)"
    by (simp add: extract_result c ex_extractor_full_simps schema_client_def ex_provider_def
        validate_required_only)
  from uploaded_file_same_as_pdf [OF h1 h2 h3 h4] h1 h2 h3 h4 e show ?thesis by simp
qed

end
